theory Spec2Isabelle
  imports Main "HOL-Library.Word"
begin

section \<open>Data model\<close>

text \<open>
  Byte slices are lists of 8-bit words; \<open>uint32\<close> and \<open>uint8\<close> are words, so the
  arithmetic of the source wraps as it does in Go.
\<close>

type_synonym byte = "8 word"
type_synonym bytes = "byte list"
type_synonym uint32 = "32 word"
type_synonym uint8 = "8 word"

subsection \<open>pkg/format/format.go\<close>

definition format_Version :: string where
  "format_Version = ''1.0''"

definition format_AlgorithmAESGCM :: string where
  "format_AlgorithmAESGCM = ''AES-256-GCM''"

definition format_AlgorithmChaCha20 :: string where
  "format_AlgorithmChaCha20 = ''ChaCha20-Poly1305''"

text \<open>
  \<open>time.Time\<close> is only stored and carried around by the functions below; it is modelled
  as the instant it denotes, in nanoseconds since the Unix epoch.
\<close>

datatype Time = UnixNano int

record Header =
  Version :: string
  Algorithm :: string
  KDF :: string
  Iterations :: uint32
  Memory :: uint32
  Threads :: uint8
  Timestamp :: Time
  Comment :: string

record EncryptedFile =
  Header :: Header
  Salt :: bytes
  Nonce :: bytes
  Ciphertext :: bytes
  Tag :: bytes

subsection \<open>internal/crypto: parameters, results, errors\<close>

record KDFParams =
  Iterations :: uint32
  Memory :: uint32
  Threads :: uint8
  KeyLength :: uint32

record EncryptionResult =
  Salt :: bytes
  Nonce :: bytes
  Ciphertext :: bytes
  Tag :: bytes

text \<open>
  One constructor for each \<open>fmt.Errorf\<close> of the package. The formatted operands that
  come from the artifact are kept; an error wrapped with \<open>%w\<close> is not.
\<close>

datatype error =
    UnsupportedAlgorithm string
  | FailedToGenerateSalt
  | FailedToGenerateNonce
  | FailedToCreateAESCipher
  | FailedToCreateGCMMode
  | FailedToCreateChaCha20Cipher
  | CiphertextTooShort
  | DecryptionFailed
  | UnsupportedFileVersion string
  | UnsupportedKDF string
  | InvalidSaltLength nat
  | InvalidNonceLength nat
  | InvalidTagLength nat
  | EmptyCiphertext

text \<open>
  A Go call returns or panics; a call that returns may return an error in place of its
  value. The two layers are kept apart: a panic is not an error value, and nothing in
  the package recovers from one.
\<close>

datatype 'a may_panic = Done 'a | Panic

type_synonym 'a outcome = "(error + 'a) may_panic"

abbreviation Returned :: "'a \<Rightarrow> 'a outcome" where
  "Returned v \<equiv> Done (Inr v)"

abbreviation Failed :: "error \<Rightarrow> 'a outcome" where
  "Failed e \<equiv> Done (Inl e)"

section \<open>The libraries the package calls\<close>

text \<open>
  Argon2id (\<open>golang.org/x/crypto/argon2\<close>), AES and GCM (\<open>crypto/aes\<close>,
  \<open>crypto/cipher\<close>) and ChaCha20-Poly1305 (\<open>golang.org/x/crypto/chacha20poly1305\<close>)
  are not code of the repository. The package is modelled over an arbitrary
  implementation of them, passed as the first argument of every function that reaches
  one.

  A constructor that returns \<open>(T, error)\<close> yields \<open>None\<close> for the error. \<open>Seal\<close> and
  \<open>IDKey\<close> return no error, \<open>Open\<close> returns \<open>(plaintext, error)\<close>, and each of the three
  may panic. \<open>Seal\<close> and \<open>Open\<close> take the nonce, the text and the additional data; the
  destination slice is always \<open>nil\<close> in the package and is left out.
\<close>

record Block =
  BlockSize :: nat
  Block_Encrypt :: "bytes \<Rightarrow> bytes"

record AEAD =
  NonceSize :: nat
  Overhead :: nat
  Seal :: "bytes \<Rightarrow> bytes \<Rightarrow> bytes \<Rightarrow> bytes may_panic"
  Open :: "bytes \<Rightarrow> bytes \<Rightarrow> bytes \<Rightarrow> bytes option may_panic"

record library =
  argon2_IDKey :: "bytes \<Rightarrow> bytes \<Rightarrow> uint32 \<Rightarrow> uint32 \<Rightarrow> uint8 \<Rightarrow> uint32 \<Rightarrow> bytes may_panic"
  aes_NewCipher :: "bytes \<Rightarrow> Block option"
  cipher_NewGCM :: "Block \<Rightarrow> AEAD option"
  chacha20poly1305_New :: "bytes \<Rightarrow> AEAD option"

text \<open>
  What the claims below assume of an AEAD of the library, for plaintexts of at most
  \<open>limit\<close> bytes: 12-byte nonces and 16-byte tags; sealing under a 12-byte nonce
  returns; what was sealed is 16 bytes longer than the plaintext and opens, under the
  same nonce and additional data, to the plaintext; opening under a 12-byte nonce
  returns (a plaintext or an error).
\<close>

definition AEAD_contract :: "nat \<Rightarrow> AEAD \<Rightarrow> bool" where
  "AEAD_contract limit a \<longleftrightarrow>
     NonceSize a = 12 \<and> Overhead a = 16
     \<and> (\<forall>nonce plaintext ad. length nonce = 12 \<and> length plaintext \<le> limit
           \<longrightarrow> (\<exists>sealed. Seal a nonce plaintext ad = Done sealed))
     \<and> (\<forall>nonce plaintext ad sealed. Seal a nonce plaintext ad = Done sealed
           \<longrightarrow> length plaintext \<le> limit
               \<and> length sealed = length plaintext + 16
               \<and> Open a nonce sealed ad = Done (Some plaintext))
     \<and> (\<forall>nonce sealed ad. length nonce = 12 \<and> length sealed \<le> limit + 16
           \<longrightarrow> Open a nonce sealed ad \<noteq> Panic)"

text \<open>The longest plaintext each construction seals (\<open>Seal\<close> panics beyond it).\<close>

definition gcm_limit :: nat where
  "gcm_limit = (2 ^ 32 - 2) * 16"

definition chacha20poly1305_limit :: nat where
  "chacha20poly1305_limit = 2 ^ 38 - 64"

text \<open>
  What the claims assume of the library as a whole.
  \<^item> \<open>argon2.IDKey\<close> panics when the number of passes or the parallelism is below 1;
    it returns when both are at least 1 and a key of at least one byte is asked for
    (memory permitting); a key it returns has the requested length.
  \<^item> \<open>aes.NewCipher\<close> accepts keys of 16, 24 and 32 bytes, and no others; its blocks
    have 16 bytes.
  \<^item> \<open>cipher.NewGCM\<close> accepts every block cipher with 16-byte blocks.
  \<^item> \<open>chacha20poly1305.New\<close> accepts 32-byte keys, and no others.
  \<^item> The AEADs obtained meet \<open>AEAD_contract\<close>.
\<close>

definition library_contract :: "library \<Rightarrow> bool" where
  "library_contract L \<longleftrightarrow>
     (\<forall>password salt time memory threads keyLen.
         (time < 1 \<or> threads < 1
            \<longrightarrow> argon2_IDKey L password salt time memory threads keyLen = Panic)
         \<and> (1 \<le> time \<and> 1 \<le> threads \<and> 1 \<le> keyLen
            \<longrightarrow> (\<exists>key. argon2_IDKey L password salt time memory threads keyLen = Done key))
         \<and> (\<forall>key. argon2_IDKey L password salt time memory threads keyLen = Done key
            \<longrightarrow> length key = unat keyLen))
     \<and> (\<forall>key.
         if length key = 16 \<or> length key = 24 \<or> length key = 32
         then (\<exists>block. aes_NewCipher L key = Some block \<and> BlockSize block = 16)
         else aes_NewCipher L key = None)
     \<and> (\<forall>block. BlockSize block = 16
           \<longrightarrow> (\<exists>gcm. cipher_NewGCM L block = Some gcm \<and> AEAD_contract gcm_limit gcm))
     \<and> (\<forall>key.
         if length key = 32
         then (\<exists>aead. chacha20poly1305_New L key = Some aead
                 \<and> AEAD_contract chacha20poly1305_limit aead)
         else chacha20poly1305_New L key = None)"

section \<open>The secure random source\<close>

text \<open>
  \<open>crypto/rand\<close> is the one piece of state the package reads. It is modelled as the
  sequence of bytes the source is still going to deliver: \<open>rand.Read\<close> on a buffer of
  \<open>n\<close> bytes takes the next \<open>n\<close> of them, and fails when the source cannot fill the
  buffer.
\<close>

definition rand_Read :: "nat \<Rightarrow> bytes \<Rightarrow> bytes option \<times> bytes" where
  "rand_Read n source =
     (if n \<le> length source then (Some (take n source), drop n source) else (None, source))"

section \<open>internal/crypto/kdf.go\<close>

definition DefaultKDFParams :: KDFParams where
  "DefaultKDFParams =
     \<lparr>KDFParams.Iterations = 100000, Memory = 64, Threads = 4, KeyLength = 32\<rparr>"

definition FastKDFParams :: KDFParams where
  "FastKDFParams =
     \<lparr>KDFParams.Iterations = 1000, Memory = 8, Threads = 1, KeyLength = 32\<rparr>"

text \<open>The product \<open>params.Memory*1024\<close> is a \<open>uint32\<close> product and wraps.\<close>

definition DeriveKey :: "library \<Rightarrow> bytes \<Rightarrow> bytes \<Rightarrow> KDFParams \<Rightarrow> bytes may_panic" where
  "DeriveKey L passphrase salt params =
     argon2_IDKey L passphrase salt
       (KDFParams.Iterations params)
       (KDFParams.Memory params * 1024)
       (KDFParams.Threads params)
       (KeyLength params)"

definition GenerateSalt :: "bytes \<Rightarrow> (error + bytes) \<times> bytes" where
  "GenerateSalt source =
     (case rand_Read 32 source of
        (None, source') \<Rightarrow> (Inl FailedToGenerateSalt, source')
      | (Some salt, source') \<Rightarrow> (Inr salt, source'))"

definition GenerateNonce :: "bytes \<Rightarrow> (error + bytes) \<times> bytes" where
  "GenerateNonce source =
     (case rand_Read 12 source of
        (None, source') \<Rightarrow> (Inl FailedToGenerateNonce, source')
      | (Some nonce, source') \<Rightarrow> (Inr nonce, source'))"

text \<open>The loop \<open>for i := range data { data[i] = 0 }\<close>, as the buffer it leaves.\<close>

definition ClearBytes :: "bytes \<Rightarrow> bytes" where
  "ClearBytes data = fold (\<lambda>i d. d[i := 0]) [0..<length data] data"

section \<open>Encryption and decryption (internal/crypto)\<close>

text \<open>
  Every function that derives a key allocates one buffer for it and registers
  \<open>defer ClearBytes(key)\<close> right after the derivation. A deferred call runs when the
  function returns and when it panics, so each function is written as its body, which
  computes the outcome from the key, and the function proper, which reports next to the
  outcome what the key buffer holds when the call is over: \<open>None\<close> when no buffer was
  allocated. The encrypting functions also report what is left of the random source.
\<close>

text \<open>The split of the sealed bytes into ciphertext and trailing tag.\<close>

definition split_sealed :: "bytes \<Rightarrow> bytes \<Rightarrow> bytes \<Rightarrow> nat \<Rightarrow> error + EncryptionResult" where
  "split_sealed salt nonce ciphertext tagSize =
     (if length ciphertext < tagSize then Inl CiphertextTooShort
      else Inr \<lparr>EncryptionResult.Salt = salt, Nonce = nonce,
                Ciphertext = take (length ciphertext - tagSize) ciphertext,
                Tag = drop (length ciphertext - tagSize) ciphertext\<rparr>)"

definition EncryptAES_body ::
    "library \<Rightarrow> bytes \<Rightarrow> bytes \<Rightarrow> bytes \<Rightarrow> bytes \<Rightarrow> EncryptionResult outcome \<times> bytes" where
  "EncryptAES_body L source data salt key =
     (case aes_NewCipher L key of
        None \<Rightarrow> (Failed FailedToCreateAESCipher, source)
      | Some block \<Rightarrow>
          (case cipher_NewGCM L block of
             None \<Rightarrow> (Failed FailedToCreateGCMMode, source)
           | Some gcm \<Rightarrow>
               (case GenerateNonce source of
                  (Inl e, source') \<Rightarrow> (Failed FailedToGenerateNonce, source')
                | (Inr nonce, source') \<Rightarrow>
                    (case Seal gcm nonce data [] of
                       Panic \<Rightarrow> (Panic, source')
                     | Done ciphertext \<Rightarrow>
                         (Done (split_sealed salt nonce ciphertext (Overhead gcm)), source')))))"

definition EncryptAES ::
    "library \<Rightarrow> bytes \<Rightarrow> bytes \<Rightarrow> bytes \<Rightarrow> KDFParams
      \<Rightarrow> EncryptionResult outcome \<times> bytes option \<times> bytes" where
  "EncryptAES L source data passphrase params =
     (case GenerateSalt source of
        (Inl e, source') \<Rightarrow> (Failed FailedToGenerateSalt, None, source')
      | (Inr salt, source') \<Rightarrow>
          (case DeriveKey L passphrase salt params of
             Panic \<Rightarrow> (Panic, None, source')
           | Done key \<Rightarrow>
               (case EncryptAES_body L source' data salt key of
                  (result, source'') \<Rightarrow> (result, Some (ClearBytes key), source''))))"

definition EncryptChaCha20_body ::
    "library \<Rightarrow> bytes \<Rightarrow> bytes \<Rightarrow> bytes \<Rightarrow> bytes \<Rightarrow> EncryptionResult outcome \<times> bytes" where
  "EncryptChaCha20_body L source data salt key =
     (case chacha20poly1305_New L key of
        None \<Rightarrow> (Failed FailedToCreateChaCha20Cipher, source)
      | Some aead \<Rightarrow>
          (case rand_Read (NonceSize aead) source of
             (None, source') \<Rightarrow> (Failed FailedToGenerateNonce, source')
           | (Some nonce, source') \<Rightarrow>
               (case Seal aead nonce data [] of
                  Panic \<Rightarrow> (Panic, source')
                | Done ciphertext \<Rightarrow>
                    (Done (split_sealed salt nonce ciphertext (Overhead aead)), source'))))"

definition EncryptChaCha20 ::
    "library \<Rightarrow> bytes \<Rightarrow> bytes \<Rightarrow> bytes \<Rightarrow> KDFParams
      \<Rightarrow> EncryptionResult outcome \<times> bytes option \<times> bytes" where
  "EncryptChaCha20 L source data passphrase params =
     (case GenerateSalt source of
        (Inl e, source') \<Rightarrow> (Failed FailedToGenerateSalt, None, source')
      | (Inr salt, source') \<Rightarrow>
          (case DeriveKey L passphrase salt params of
             Panic \<Rightarrow> (Panic, None, source')
           | Done key \<Rightarrow>
               (case EncryptChaCha20_body L source' data salt key of
                  (result, source'') \<Rightarrow> (result, Some (ClearBytes key), source''))))"

definition Encrypt ::
    "library \<Rightarrow> bytes \<Rightarrow> bytes \<Rightarrow> bytes \<Rightarrow> string \<Rightarrow> KDFParams
      \<Rightarrow> EncryptionResult outcome \<times> bytes option \<times> bytes" where
  "Encrypt L source data passphrase algorithm params =
     (if algorithm = format_AlgorithmAESGCM then EncryptAES L source data passphrase params
      else if algorithm = format_AlgorithmChaCha20
        then EncryptChaCha20 L source data passphrase params
      else (Failed (UnsupportedAlgorithm algorithm), None, source))"

text \<open>
  \<open>append(ciphertext, tag...)\<close> is the concatenation: whatever the two slices share,
  the bytes of the result are those of the ciphertext followed by those of the tag.
\<close>

definition DecryptAES_body :: "library \<Rightarrow> EncryptedFile \<Rightarrow> bytes \<Rightarrow> bytes outcome" where
  "DecryptAES_body L encFile key =
     (case aes_NewCipher L key of
        None \<Rightarrow> Failed FailedToCreateAESCipher
      | Some block \<Rightarrow>
          (case cipher_NewGCM L block of
             None \<Rightarrow> Failed FailedToCreateGCMMode
           | Some gcm \<Rightarrow>
               (let fullCiphertext = EncryptedFile.Ciphertext encFile @ EncryptedFile.Tag encFile
                in case Open gcm (EncryptedFile.Nonce encFile) fullCiphertext [] of
                     Panic \<Rightarrow> Panic
                   | Done None \<Rightarrow> Failed DecryptionFailed
                   | Done (Some plaintext) \<Rightarrow> Returned plaintext)))"

definition DecryptAES ::
    "library \<Rightarrow> EncryptedFile \<Rightarrow> bytes \<Rightarrow> KDFParams \<Rightarrow> bytes outcome \<times> bytes option" where
  "DecryptAES L encFile passphrase params =
     (case DeriveKey L passphrase (EncryptedFile.Salt encFile) params of
        Panic \<Rightarrow> (Panic, None)
      | Done key \<Rightarrow> (DecryptAES_body L encFile key, Some (ClearBytes key)))"

definition DecryptChaCha20_body ::
    "library \<Rightarrow> bytes \<Rightarrow> bytes \<Rightarrow> bytes \<Rightarrow> bytes \<Rightarrow> bytes outcome" where
  "DecryptChaCha20_body L nonce ciphertext tag key =
     (case chacha20poly1305_New L key of
        None \<Rightarrow> Failed FailedToCreateChaCha20Cipher
      | Some aead \<Rightarrow>
          (let fullCiphertext = ciphertext @ tag
           in case Open aead nonce fullCiphertext [] of
                Panic \<Rightarrow> Panic
              | Done None \<Rightarrow> Failed DecryptionFailed
              | Done (Some plaintext) \<Rightarrow> Returned plaintext))"

definition DecryptChaCha20 ::
    "library \<Rightarrow> bytes \<Rightarrow> bytes \<Rightarrow> bytes \<Rightarrow> bytes \<Rightarrow> bytes \<Rightarrow> KDFParams
      \<Rightarrow> bytes outcome \<times> bytes option" where
  "DecryptChaCha20 L salt nonce ciphertext tag passphrase params =
     (case DeriveKey L passphrase salt params of
        Panic \<Rightarrow> (Panic, None)
      | Done key \<Rightarrow> (DecryptChaCha20_body L nonce ciphertext tag key, Some (ClearBytes key)))"

definition Decrypt :: "library \<Rightarrow> EncryptedFile \<Rightarrow> bytes \<Rightarrow> bytes outcome \<times> bytes option" where
  "Decrypt L encFile passphrase =
     (let params = \<lparr>KDFParams.Iterations = Header.Iterations (Header encFile),
                    Memory = Header.Memory (Header encFile),
                    Threads = Header.Threads (Header encFile),
                    KeyLength = 32\<rparr>
      in if Algorithm (Header encFile) = format_AlgorithmAESGCM
           then DecryptAES L encFile passphrase params
         else if Algorithm (Header encFile) = format_AlgorithmChaCha20
           then DecryptChaCha20 L (EncryptedFile.Salt encFile) (EncryptedFile.Nonce encFile)
                  (EncryptedFile.Ciphertext encFile) (EncryptedFile.Tag encFile) passphrase params
         else (Failed (UnsupportedAlgorithm (Algorithm (Header encFile))), None))"

section \<open>ValidateEncryptedFile (internal/crypto/crypto.go)\<close>

text \<open>The Go \<open>error\<close> result: \<open>None\<close> is \<open>nil\<close>.\<close>

definition ValidateEncryptedFile :: "EncryptedFile \<Rightarrow> error option" where
  "ValidateEncryptedFile encFile =
     (if Version (Header encFile) \<noteq> format_Version
        then Some (UnsupportedFileVersion (Version (Header encFile)))
      else if \<not> (Algorithm (Header encFile) = format_AlgorithmAESGCM
                 \<or> Algorithm (Header encFile) = format_AlgorithmChaCha20)
        then Some (UnsupportedAlgorithm (Algorithm (Header encFile)))
      else if KDF (Header encFile) \<noteq> ''Argon2id''
        then Some (UnsupportedKDF (KDF (Header encFile)))
      else if length (EncryptedFile.Salt encFile) \<noteq> 32
        then Some (InvalidSaltLength (length (EncryptedFile.Salt encFile)))
      else if length (EncryptedFile.Nonce encFile) \<noteq> 12
        then Some (InvalidNonceLength (length (EncryptedFile.Nonce encFile)))
      else if length (EncryptedFile.Tag encFile) \<noteq> 16
        then Some (InvalidTagLength (length (EncryptedFile.Tag encFile)))
      else if length (EncryptedFile.Ciphertext encFile) = 0
        then Some EmptyCiphertext
      else None)"

text \<open>
  The validator as the specification words it: seven checks in a fixed order, each with
  the reason it reports; the first check that fails decides the reason.
\<close>

definition spec_checks :: "((EncryptedFile \<Rightarrow> bool) \<times> (EncryptedFile \<Rightarrow> error)) list" where
  "spec_checks =
     [(\<lambda>a. Version (Header a) = ''1.0'', \<lambda>a. UnsupportedFileVersion (Version (Header a))),
      (\<lambda>a. Algorithm (Header a) \<in> {''AES-256-GCM'', ''ChaCha20-Poly1305''},
         \<lambda>a. UnsupportedAlgorithm (Algorithm (Header a))),
      (\<lambda>a. KDF (Header a) = ''Argon2id'', \<lambda>a. UnsupportedKDF (KDF (Header a))),
      (\<lambda>a. length (EncryptedFile.Salt a) = 32, \<lambda>a. InvalidSaltLength (length (EncryptedFile.Salt a))),
      (\<lambda>a. length (EncryptedFile.Nonce a) = 12, \<lambda>a. InvalidNonceLength (length (EncryptedFile.Nonce a))),
      (\<lambda>a. length (EncryptedFile.Tag a) = 16, \<lambda>a. InvalidTagLength (length (EncryptedFile.Tag a))),
      (\<lambda>a. EncryptedFile.Ciphertext a \<noteq> [], \<lambda>a. EmptyCiphertext)]"

fun first_failing :: "((EncryptedFile \<Rightarrow> bool) \<times> (EncryptedFile \<Rightarrow> error)) list
    \<Rightarrow> EncryptedFile \<Rightarrow> error option" where
  "first_failing [] a = None"
| "first_failing ((holds, reason) # rest) a =
     (if holds a then first_failing rest a else Some (reason a))"

section \<open>Artifacts\<close>

text \<open>
  \<open>DefaultHeader\<close> and \<open>FastHeader\<close> of pkg/format/format.go, with the reading of the
  clock (\<open>time.Now().UTC()\<close>) as an argument. \<open>Comment\<close> is left at its zero value.
\<close>

definition DefaultHeader :: "Time \<Rightarrow> Header" where
  "DefaultHeader now =
     \<lparr>Version = format_Version, Algorithm = format_AlgorithmAESGCM, KDF = ''Argon2id'',
      Header.Iterations = 100000, Memory = 64, Threads = 4, Timestamp = now, Comment = []\<rparr>"

definition FastHeader :: "Time \<Rightarrow> Header" where
  "FastHeader now =
     \<lparr>Version = format_Version, Algorithm = format_AlgorithmAESGCM, KDF = ''Argon2id'',
      Header.Iterations = 1000, Memory = 8, Threads = 1, Timestamp = now, Comment = []\<rparr>"

text \<open>
  The artifact the backup commands build from a header and the result of \<open>Encrypt\<close>
  (the struct literal \<open>&format.EncryptedFile{...}\<close> of internal/cli/backup.go).
\<close>

definition artifact :: "Header \<Rightarrow> EncryptionResult \<Rightarrow> EncryptedFile" where
  "artifact header result =
     \<lparr>Header = header,
      Salt = EncryptionResult.Salt result,
      Nonce = EncryptionResult.Nonce result,
      Ciphertext = EncryptionResult.Ciphertext result,
      Tag = EncryptionResult.Tag result\<rparr>"

text \<open>
  A header records an algorithm and cost parameters when it carries the token and the
  three cost values. It has no field for the key length: the format fixes it at 32
  bytes, which is what \<open>Decrypt\<close> derives and what both presets ask for, so the
  parameters a header can record are those with key length 32.
\<close>

definition records :: "Header \<Rightarrow> string \<Rightarrow> KDFParams \<Rightarrow> bool" where
  "records header algorithm params \<longleftrightarrow>
     Algorithm header = algorithm
     \<and> Header.Iterations header = KDFParams.Iterations params
     \<and> Header.Memory header = KDFParams.Memory params
     \<and> Header.Threads header = KDFParams.Threads params
     \<and> KeyLength params = 32"

section \<open>Decryption as the specification words it\<close>

text \<open>
  The header's token selects the construction; the key is derived from the passphrase,
  the recorded salt and the recorded iterations, memory and threads, for 32 bytes; the
  blob is the ciphertext followed by the tag, opened under the recorded nonce with no
  associated data; a failed open is the one authentication failure.
\<close>

definition construction :: "library \<Rightarrow> string \<Rightarrow> (bytes \<Rightarrow> error + AEAD) option" where
  "construction L token =
     (if token = ''AES-256-GCM''
        then Some (\<lambda>key. case aes_NewCipher L key of
                            None \<Rightarrow> Inl FailedToCreateAESCipher
                          | Some block \<Rightarrow>
                              (case cipher_NewGCM L block of
                                 None \<Rightarrow> Inl FailedToCreateGCMMode
                               | Some gcm \<Rightarrow> Inr gcm))
      else if token = ''ChaCha20-Poly1305''
        then Some (\<lambda>key. case chacha20poly1305_New L key of
                            None \<Rightarrow> Inl FailedToCreateChaCha20Cipher
                          | Some aead \<Rightarrow> Inr aead)
      else None)"

definition authenticated_open :: "AEAD \<Rightarrow> bytes \<Rightarrow> bytes \<Rightarrow> bytes outcome" where
  "authenticated_open aead nonce blob =
     (case Open aead nonce blob [] of
        Panic \<Rightarrow> Panic
      | Done None \<Rightarrow> Failed DecryptionFailed
      | Done (Some plaintext) \<Rightarrow> Returned plaintext)"

definition spec_Decrypt :: "library \<Rightarrow> EncryptedFile \<Rightarrow> bytes \<Rightarrow> bytes outcome" where
  "spec_Decrypt L a passphrase =
     (case construction L (Algorithm (Header a)) of
        None \<Rightarrow> Failed (UnsupportedAlgorithm (Algorithm (Header a)))
      | Some new \<Rightarrow>
          (case argon2_IDKey L passphrase (EncryptedFile.Salt a)
                  (Header.Iterations (Header a)) (Header.Memory (Header a) * 1024)
                  (Header.Threads (Header a)) 32 of
             Panic \<Rightarrow> Panic
           | Done key \<Rightarrow>
               (case new key of
                  Inl e \<Rightarrow> Failed e
                | Inr aead \<Rightarrow>
                    authenticated_open aead (EncryptedFile.Nonce a)
                      (EncryptedFile.Ciphertext a @ EncryptedFile.Tag a))))"

section \<open>An executable library\<close>

text \<open>
  A small implementation of the library interfaces. It has no cryptographic strength;
  it shows that \<open>library_contract\<close> can be met and lets the package run on concrete
  inputs. Its key derivation pads or cuts passphrase and salt to the requested length;
  its AEAD shifts every byte by one and appends a 16-byte tag made of the key's length
  and its first bytes.
\<close>

definition simple_tag :: "bytes \<Rightarrow> bytes" where
  "simple_tag key = take 16 (of_nat (length key) # key @ replicate 16 0)"

definition simple_AEAD :: "nat \<Rightarrow> bytes \<Rightarrow> AEAD" where
  "simple_AEAD limit key =
     \<lparr>NonceSize = 12, Overhead = 16,
      Seal = (\<lambda>nonce plaintext ad.
        if length nonce \<noteq> 12 \<or> limit < length plaintext then Panic
        else Done (map (\<lambda>b. b + 1) plaintext @ simple_tag key)),
      Open = (\<lambda>nonce sealed ad.
        if length nonce \<noteq> 12 \<or> limit + 16 < length sealed then Panic
        else if length sealed < 16 then Done None
        else if drop (length sealed - 16) sealed = simple_tag key
          then Done (Some (map (\<lambda>b. b - 1) (take (length sealed - 16) sealed)))
        else Done None)\<rparr>"

definition simple_IDKey ::
    "bytes \<Rightarrow> bytes \<Rightarrow> uint32 \<Rightarrow> uint32 \<Rightarrow> uint8 \<Rightarrow> uint32 \<Rightarrow> bytes may_panic" where
  "simple_IDKey password salt time memory threads keyLen =
     (if time < 1 \<or> threads < 1 then Panic
      else Done (take (unat keyLen) (password @ salt @ replicate (unat keyLen) 0)))"

definition simple_library :: library where
  "simple_library =
     \<lparr>argon2_IDKey = simple_IDKey,
      aes_NewCipher = (\<lambda>key.
        if length key = 16 \<or> length key = 24 \<or> length key = 32
        then Some \<lparr>BlockSize = 16, Block_Encrypt = (\<lambda>block. simple_tag key)\<rparr>
        else None),
      cipher_NewGCM = (\<lambda>block.
        if BlockSize block = 16
        then Some (simple_AEAD gcm_limit (Block_Encrypt block (replicate 16 0)))
        else None),
      chacha20poly1305_New = (\<lambda>key.
        if length key = 32 then Some (simple_AEAD chacha20poly1305_limit key) else None)\<rparr>"

section \<open>Concrete inputs\<close>

text \<open>
  A random source that delivers 44 bytes, a four-byte plaintext, a two-byte passphrase,
  and what the executable library makes of them under the fast preset, with
  AES-256-GCM and with ChaCha20-Poly1305.
\<close>

definition example_source :: bytes where
  "example_source = replicate 44 7"

definition example_plaintext :: bytes where
  "example_plaintext = [116, 101, 115, 116]"

definition example_passphrase :: bytes where
  "example_passphrase = [112, 119]"

definition example_header :: Header where
  "example_header = FastHeader (UnixNano 0)"

definition example_result :: EncryptionResult where
  "example_result =
     \<lparr>EncryptionResult.Salt = replicate 32 7, Nonce = replicate 12 7,
      Ciphertext = [117, 102, 116, 117], Tag = [16, 32, 112, 119] @ replicate 12 7\<rparr>"

definition example_result_chacha :: EncryptionResult where
  "example_result_chacha =
     \<lparr>EncryptionResult.Salt = replicate 32 7, Nonce = replicate 12 7,
      Ciphertext = [117, 102, 116, 117], Tag = [32, 112, 119] @ replicate 13 7\<rparr>"

section \<open>Serialization (pkg/format/format.go)\<close>

text \<open>
  \<open>ToJSON\<close> is \<open>json.MarshalIndent(ef, "", "  ")\<close> and \<open>FromJSON\<close> is \<open>json.Unmarshal\<close> into
  a zero \<open>EncryptedFile\<close>. What the two calls do to the struct is fixed by the
  declarations of format.go: the field types and the tags \<open>json:"version"\<close>, ...,
  \<open>json:"comment,omitempty"\<close>, \<open>json:"header"\<close>, ..., \<open>json:"tag"\<close>. That part is modelled
  here, field by field, under the rules \<open>encoding/json\<close> documents for these types. What
  does not depend on the struct is left to the library, which is not code of the
  repository and is a parameter, as the cryptographic libraries are: the rendering of a
  JSON value as text and its parsing, the coercion of a Go string to valid UTF-8, base64,
  and \<open>Time.MarshalJSON\<close> / \<open>Time.UnmarshalJSON\<close>.
\<close>

subsection \<open>UTF-8\<close>

text \<open>
  A Go string is a sequence of bytes, not necessarily valid UTF-8. \<open>utf8_valid\<close> is the
  table of well-formed byte sequences (RFC 3629), the one \<open>unicode/utf8\<close> implements.
\<close>

definition continuation :: "nat \<Rightarrow> bool" where
  "continuation b \<longleftrightarrow> 128 \<le> b \<and> b \<le> 191"

fun utf8_valid :: "nat list \<Rightarrow> bool" where
  "utf8_valid [] = True"
| "utf8_valid (b # bs) =
     (if b < 128 then utf8_valid bs
      else if 194 \<le> b \<and> b \<le> 223 then
        (case bs of c1 # r \<Rightarrow> continuation c1 \<and> utf8_valid r | _ \<Rightarrow> False)
      else if 224 \<le> b \<and> b \<le> 239 then
        (case bs of c1 # c2 # r \<Rightarrow>
           (if b = 224 then 160 \<le> c1 \<and> c1 \<le> 191
            else if b = 237 then 128 \<le> c1 \<and> c1 \<le> 159
            else continuation c1)
           \<and> continuation c2 \<and> utf8_valid r
         | _ \<Rightarrow> False)
      else if 240 \<le> b \<and> b \<le> 244 then
        (case bs of c1 # c2 # c3 # r \<Rightarrow>
           (if b = 240 then 144 \<le> c1 \<and> c1 \<le> 191
            else if b = 244 then 128 \<le> c1 \<and> c1 \<le> 143
            else continuation c1)
           \<and> continuation c2 \<and> continuation c3 \<and> utf8_valid r
         | _ \<Rightarrow> False)
      else False)"

definition valid_utf8 :: "string \<Rightarrow> bool" where
  "valid_utf8 s = utf8_valid (map of_char s)"

subsection \<open>JSON values and the library\<close>

text \<open>
  The values the struct is mapped to and from. The numbers of the struct are unsigned
  integers, so a number is an \<open>int\<close>. A value is well formed when its strings and member
  names are valid UTF-8: only such values have a JSON text.
\<close>

datatype json =
    JNull
  | JBool bool
  | JNumber int
  | JString string
  | JArray "json list"
  | JObject "(string \<times> json) list"

primrec wellformed :: "json \<Rightarrow> bool" where
  "wellformed JNull = True"
| "wellformed (JBool b) = True"
| "wellformed (JNumber n) = True"
| "wellformed (JString s) = valid_utf8 s"
| "wellformed (JArray xs) = list_all id (map wellformed xs)"
| "wellformed (JObject ms) =
     list_all (\<lambda>(k, w). valid_utf8 k \<and> w) (map (map_prod id wellformed) ms)"

datatype json_error =
    MarshalerError
  | SyntaxError
  | UnmarshalTypeError
  | CorruptInputError
  | TimeParseError

text \<open>
  \<open>json_text\<close> renders a value (with the indentation \<open>MarshalIndent\<close> is given) and
  \<open>json_value\<close> parses a text, \<open>None\<close> for a syntax error. \<open>to_valid_utf8\<close> is the coercion
  \<open>Marshal\<close> applies to every string (invalid bytes become U+FFFD). \<open>fold_name\<close> is the
  case folding under which \<open>Unmarshal\<close> matches a key that equals no field name exactly.
  \<open>Time_MarshalJSON\<close> yields the text between the quotes, \<open>None\<close> for its error (a year
  outside \<open>[0, 9999]\<close>).
\<close>

record json_library =
  json_text :: "json \<Rightarrow> bytes"
  json_value :: "bytes \<Rightarrow> json option"
  to_valid_utf8 :: "string \<Rightarrow> string"
  fold_name :: "string \<Rightarrow> string"
  base64_EncodeToString :: "bytes \<Rightarrow> string"
  base64_DecodeString :: "string \<Rightarrow> bytes option"
  Time_MarshalJSON :: "Time \<Rightarrow> string option"
  Time_UnmarshalJSON :: "string \<Rightarrow> Time option"

text \<open>
  What is assumed of the library: parsing a rendered value gives the value back; the
  coercion yields valid UTF-8 and leaves valid UTF-8 alone; base64 text is valid UTF-8 and
  decodes to the bytes it encodes; a marshalled time is valid UTF-8 and unmarshals to the
  same instant (RFC 3339 with nanoseconds).
\<close>

definition json_contract :: "json_library \<Rightarrow> bool" where
  "json_contract J \<longleftrightarrow>
     (\<forall>v. wellformed v \<longrightarrow> json_value J (json_text J v) = Some v)
     \<and> (\<forall>s. valid_utf8 (to_valid_utf8 J s) \<and> (valid_utf8 s \<longrightarrow> to_valid_utf8 J s = s))
     \<and> (\<forall>bs. valid_utf8 (base64_EncodeToString J bs)
           \<and> base64_DecodeString J (base64_EncodeToString J bs) = Some bs)
     \<and> (\<forall>t s. Time_MarshalJSON J t = Some s
           \<longrightarrow> valid_utf8 s \<and> Time_UnmarshalJSON J s = Some t)"

subsection \<open>Marshalling the struct: \<open>ToJSON\<close>\<close>

text \<open>
  The members of \<open>Header\<close> in declaration order, under the names of the tags. Strings are
  coerced, \<open>uint32\<close> and \<open>uint8\<close> are numbers, the timestamp is the string of
  \<open>Time.MarshalJSON\<close>, and \<open>comment\<close> is left out when empty (\<open>omitempty\<close>).
\<close>

definition Header_members :: "json_library \<Rightarrow> Header \<Rightarrow> string \<Rightarrow> (string \<times> json) list" where
  "Header_members J h timestamp =
     [(''version'', JString (to_valid_utf8 J (Version h))),
      (''algorithm'', JString (to_valid_utf8 J (Algorithm h))),
      (''kdf'', JString (to_valid_utf8 J (KDF h))),
      (''iterations'', JNumber (uint (Header.Iterations h))),
      (''memory'', JNumber (uint (Header.Memory h))),
      (''threads'', JNumber (uint (Header.Threads h))),
      (''timestamp'', JString timestamp)]
     @ (if Comment h = [] then [] else [(''comment'', JString (to_valid_utf8 J (Comment h)))])"

text \<open>
  The four \<open>[]byte\<close> fields are base64 strings. Byte slices are lists here, so a \<open>nil\<close>
  slice (which marshals to \<open>null\<close> and unmarshals to \<open>nil\<close>) is not told from an empty one.
\<close>

definition EncryptedFile_json :: "json_library \<Rightarrow> EncryptedFile \<Rightarrow> json_error + json" where
  "EncryptedFile_json J a =
     (case Time_MarshalJSON J (Timestamp (Header a)) of
        None \<Rightarrow> Inl MarshalerError
      | Some timestamp \<Rightarrow>
          Inr (JObject
            [(''header'', JObject (Header_members J (Header a) timestamp)),
             (''salt'', JString (base64_EncodeToString J (EncryptedFile.Salt a))),
             (''nonce'', JString (base64_EncodeToString J (EncryptedFile.Nonce a))),
             (''ciphertext'', JString (base64_EncodeToString J (EncryptedFile.Ciphertext a))),
             (''tag'', JString (base64_EncodeToString J (EncryptedFile.Tag a)))]))"

definition ToJSON :: "json_library \<Rightarrow> EncryptedFile \<Rightarrow> json_error + bytes" where
  "ToJSON J ef =
     (case EncryptedFile_json J ef of Inl e \<Rightarrow> Inl e | Inr v \<Rightarrow> Inr (json_text J v))"

subsection \<open>Unmarshalling into the struct: \<open>FromJSON\<close>\<close>

text \<open>
  \<open>var ef EncryptedFile\<close> is the zero value: empty strings and slices, zero numbers, and
  the zero \<open>time.Time\<close> (1 January of year 1, UTC).
\<close>

definition zero_Time :: Time where
  "zero_Time = UnixNano (- 62135596800000000000)"

definition zero_Header :: Header where
  "zero_Header =
     \<lparr>Version = [], Algorithm = [], KDF = [], Header.Iterations = 0, Memory = 0, Threads = 0,
      Timestamp = zero_Time, Comment = []\<rparr>"

definition zero_EncryptedFile :: EncryptedFile where
  "zero_EncryptedFile =
     \<lparr>Header = zero_Header, Salt = [], Nonce = [], Ciphertext = [], Tag = []\<rparr>"

text \<open>
  \<open>Unmarshal\<close> walks the members of an object in order. A key selects the field whose
  name it equals, or else the first field whose name it matches under case folding; a
  key that selects none is skipped. \<open>null\<close> leaves a field as it is. A later member for
  the same field overwrites an earlier one.
\<close>

definition field_for :: "json_library \<Rightarrow> string list \<Rightarrow> string \<Rightarrow> string option" where
  "field_for J names key =
     (if key \<in> set names then Some key
      else find (\<lambda>name. fold_name J name = fold_name J key) names)"

definition assign_string :: "json \<Rightarrow> string \<Rightarrow> json_error + string" where
  "assign_string v current =
     (case v of JString s \<Rightarrow> Inr s | JNull \<Rightarrow> Inr current | _ \<Rightarrow> Inl UnmarshalTypeError)"

definition assign_uint :: "json \<Rightarrow> 'a::len word \<Rightarrow> json_error + 'a word" where
  "assign_uint v current =
     (case v of
        JNumber n \<Rightarrow>
          if 0 \<le> n \<and> n < 2 ^ LENGTH('a) then Inr (word_of_int n) else Inl UnmarshalTypeError
      | JNull \<Rightarrow> Inr current
      | _ \<Rightarrow> Inl UnmarshalTypeError)"

definition assign_Time :: "json_library \<Rightarrow> json \<Rightarrow> Time \<Rightarrow> json_error + Time" where
  "assign_Time J v current =
     (case v of
        JString s \<Rightarrow> (case Time_UnmarshalJSON J s of None \<Rightarrow> Inl TimeParseError | Some t \<Rightarrow> Inr t)
      | JNull \<Rightarrow> Inr current
      | _ \<Rightarrow> Inl TimeParseError)"

text \<open>
  A \<open>[]byte\<close> field takes a base64 string, \<open>null\<close> (the slice becomes \<open>nil\<close>) or an
  array, decoded element by element into the slice the field holds: a number in
  \<open>0..255\<close> sets the byte, and \<open>null\<close> is skipped, which leaves the byte that is there,
  or the zero byte of a slice that had to grow. Bytes left in the spare capacity of
  the slice by an earlier, longer member for the same field are not modelled.
\<close>

fun byte_elements :: "json list \<Rightarrow> bytes \<Rightarrow> json_error + bytes" where
  "byte_elements [] current = Inr []"
| "byte_elements (JNumber n # xs) current =
     (if 0 \<le> n \<and> n < 256
      then (case byte_elements xs (tl current) of
              Inl e \<Rightarrow> Inl e
            | Inr bs \<Rightarrow> Inr (word_of_int n # bs))
      else Inl UnmarshalTypeError)"
| "byte_elements (JNull # xs) current =
     (case byte_elements xs (tl current) of
        Inl e \<Rightarrow> Inl e
      | Inr bs \<Rightarrow> Inr ((case current of [] \<Rightarrow> 0 | b # _ \<Rightarrow> b) # bs))"
| "byte_elements (x # xs) current = Inl UnmarshalTypeError"

definition assign_bytes :: "json_library \<Rightarrow> json \<Rightarrow> bytes \<Rightarrow> json_error + bytes" where
  "assign_bytes J v current =
     (case v of
        JString s \<Rightarrow>
          (case base64_DecodeString J s of None \<Rightarrow> Inl CorruptInputError | Some bs \<Rightarrow> Inr bs)
      | JNull \<Rightarrow> Inr []
      | JArray xs \<Rightarrow> byte_elements xs current
      | _ \<Rightarrow> Inl UnmarshalTypeError)"

fun assign_members :: "('m \<Rightarrow> 's \<Rightarrow> json_error + 's) \<Rightarrow> 'm list \<Rightarrow> 's \<Rightarrow> json_error + 's" where
  "assign_members assign [] s = Inr s"
| "assign_members assign (m # ms) s =
     (case assign m s of Inl e \<Rightarrow> Inl e | Inr s' \<Rightarrow> assign_members assign ms s')"

definition Header_fields :: "string list" where
  "Header_fields =
     [''version'', ''algorithm'', ''kdf'', ''iterations'', ''memory'', ''threads'',
      ''timestamp'', ''comment'']"

definition assign_Header_member ::
    "json_library \<Rightarrow> string \<times> json \<Rightarrow> Header \<Rightarrow> json_error + Header" where
  "assign_Header_member J m h =
     (case field_for J Header_fields (fst m) of
        None \<Rightarrow> Inr h
      | Some name \<Rightarrow>
          if name = ''version''
            then map_sum id (\<lambda>s. h\<lparr>Version := s\<rparr>) (assign_string (snd m) (Version h))
          else if name = ''algorithm''
            then map_sum id (\<lambda>s. h\<lparr>Algorithm := s\<rparr>) (assign_string (snd m) (Algorithm h))
          else if name = ''kdf''
            then map_sum id (\<lambda>s. h\<lparr>KDF := s\<rparr>) (assign_string (snd m) (KDF h))
          else if name = ''iterations''
            then map_sum id (\<lambda>n. h\<lparr>Header.Iterations := n\<rparr>)
                   (assign_uint (snd m) (Header.Iterations h))
          else if name = ''memory''
            then map_sum id (\<lambda>n. h\<lparr>Header.Memory := n\<rparr>) (assign_uint (snd m) (Header.Memory h))
          else if name = ''threads''
            then map_sum id (\<lambda>n. h\<lparr>Header.Threads := n\<rparr>) (assign_uint (snd m) (Header.Threads h))
          else if name = ''timestamp''
            then map_sum id (\<lambda>t. h\<lparr>Timestamp := t\<rparr>) (assign_Time J (snd m) (Timestamp h))
          else map_sum id (\<lambda>s. h\<lparr>Comment := s\<rparr>) (assign_string (snd m) (Comment h)))"

definition assign_Header :: "json_library \<Rightarrow> json \<Rightarrow> Header \<Rightarrow> json_error + Header" where
  "assign_Header J v h =
     (case v of
        JObject ms \<Rightarrow> assign_members (assign_Header_member J) ms h
      | JNull \<Rightarrow> Inr h
      | _ \<Rightarrow> Inl UnmarshalTypeError)"

definition EncryptedFile_fields :: "string list" where
  "EncryptedFile_fields = [''header'', ''salt'', ''nonce'', ''ciphertext'', ''tag'']"

definition assign_EncryptedFile_member ::
    "json_library \<Rightarrow> string \<times> json \<Rightarrow> EncryptedFile \<Rightarrow> json_error + EncryptedFile" where
  "assign_EncryptedFile_member J m a =
     (case field_for J EncryptedFile_fields (fst m) of
        None \<Rightarrow> Inr a
      | Some name \<Rightarrow>
          if name = ''header''
            then map_sum id (\<lambda>h. a\<lparr>Header := h\<rparr>) (assign_Header J (snd m) (Header a))
          else if name = ''salt''
            then map_sum id (\<lambda>bs. a\<lparr>EncryptedFile.Salt := bs\<rparr>)
                   (assign_bytes J (snd m) (EncryptedFile.Salt a))
          else if name = ''nonce''
            then map_sum id (\<lambda>bs. a\<lparr>EncryptedFile.Nonce := bs\<rparr>)
                   (assign_bytes J (snd m) (EncryptedFile.Nonce a))
          else if name = ''ciphertext''
            then map_sum id (\<lambda>bs. a\<lparr>EncryptedFile.Ciphertext := bs\<rparr>)
                   (assign_bytes J (snd m) (EncryptedFile.Ciphertext a))
          else map_sum id (\<lambda>bs. a\<lparr>EncryptedFile.Tag := bs\<rparr>)
                 (assign_bytes J (snd m) (EncryptedFile.Tag a)))"

definition assign_EncryptedFile ::
    "json_library \<Rightarrow> json \<Rightarrow> EncryptedFile \<Rightarrow> json_error + EncryptedFile" where
  "assign_EncryptedFile J v a =
     (case v of
        JObject ms \<Rightarrow> assign_members (assign_EncryptedFile_member J) ms a
      | JNull \<Rightarrow> Inr a
      | _ \<Rightarrow> Inl UnmarshalTypeError)"

text \<open>
  \<open>FromJSON\<close> returns \<open>&ef, err\<close>. The result here is the error or the filled struct; the
  partly filled struct that accompanies an error is not modelled.
\<close>

definition FromJSON :: "json_library \<Rightarrow> bytes \<Rightarrow> json_error + EncryptedFile" where
  "FromJSON J data =
     (case json_value J data of
        None \<Rightarrow> Inl SyntaxError
      | Some v \<Rightarrow> assign_EncryptedFile J v zero_EncryptedFile)"

text \<open>
  The artifact with every string of the header coerced to valid UTF-8, and an artifact
  whose comment is the single byte \<open>0xFF\<close>, which is not valid UTF-8.
\<close>

definition coerced :: "json_library \<Rightarrow> EncryptedFile \<Rightarrow> EncryptedFile" where
  "coerced J a =
     a\<lparr>Header := (Header a)
         \<lparr>Version := to_valid_utf8 J (Version (Header a)),
          Algorithm := to_valid_utf8 J (Algorithm (Header a)),
          KDF := to_valid_utf8 J (KDF (Header a)),
          Comment := to_valid_utf8 J (Comment (Header a))\<rparr>\<rparr>"

definition invalid_comment :: EncryptedFile where
  "invalid_comment = zero_EncryptedFile\<lparr>Header := zero_Header\<lparr>Comment := [CHR 0xFF]\<rparr>\<rparr>"

subsection \<open>An executable JSON library\<close>

text \<open>
  A small implementation of \<open>json_library\<close>, to show that \<open>json_contract\<close> can be met and
  to run \<open>ToJSON\<close> and \<open>FromJSON\<close> on concrete artifacts. Its text is a tagged prefix code,
  not JSON syntax: naturals are binary digits \<open>1\<close>, \<open>2\<close> closed by \<open>0\<close>, a string is its
  length and its bytes, arrays and objects mark each element with \<open>1\<close> and end with \<open>0\<close>.
  It drops every string that is not valid UTF-8, writes bytes as two letters of
  \<open>a..p\<close>, and a time as a sign and the binary digits of its nanoseconds. The reader takes
  fuel; the length of the text plus one is always enough (\<open>simple_value_text\<close>).
\<close>

fun simple_nat :: "nat \<Rightarrow> bytes" where
  "simple_nat n = (if n = 0 then [0] else (if even n then 1 else 2) # simple_nat (n div 2))"

declare simple_nat.simps [simp del]

fun read_nat :: "bytes \<Rightarrow> (nat \<times> bytes) option" where
  "read_nat [] = None"
| "read_nat (b # bs) =
     (if b = 0 then Some (0, bs)
      else if b = 1 then map_option (\<lambda>(n, r). (2 * n, r)) (read_nat bs)
      else if b = 2 then map_option (\<lambda>(n, r). (2 * n + 1, r)) (read_nat bs)
      else None)"

definition simple_string :: "string \<Rightarrow> bytes" where
  "simple_string s = simple_nat (length s) @ map (\<lambda>c. of_nat (of_char c)) s"

definition read_string :: "bytes \<Rightarrow> (string \<times> bytes) option" where
  "read_string bs =
     (case read_nat bs of
        None \<Rightarrow> None
      | Some (n, r) \<Rightarrow>
          if n \<le> length r then Some (map (\<lambda>b. char_of (unat b)) (take n r), drop n r) else None)"

primrec simple_text :: "json \<Rightarrow> bytes" where
  "simple_text JNull = [0]"
| "simple_text (JBool b) = [1, if b then 1 else 0]"
| "simple_text (JNumber n) = 2 # (if n < 0 then 1 else 0) # simple_nat (nat \<bar>n\<bar>)"
| "simple_text (JString s) = 3 # simple_string s"
| "simple_text (JArray xs) = 4 # concat (map (\<lambda>t. 1 # t) (map simple_text xs)) @ [0]"
| "simple_text (JObject ms) =
     5 # concat (map (\<lambda>(k, t). 1 # simple_string k @ t) (map (map_prod id simple_text) ms)) @ [0]"

fun read_json :: "nat \<Rightarrow> bytes \<Rightarrow> (json \<times> bytes) option"
  and read_elements :: "nat \<Rightarrow> bytes \<Rightarrow> (json list \<times> bytes) option"
  and read_members :: "nat \<Rightarrow> bytes \<Rightarrow> ((string \<times> json) list \<times> bytes) option" where
  "read_json 0 bs = None"
| "read_json (Suc f) [] = None"
| "read_json (Suc f) (t # bs) =
     (if t = 0 then Some (JNull, bs)
      else if t = 1 then (case bs of [] \<Rightarrow> None | b # r \<Rightarrow> Some (JBool (b = 1), r))
      else if t = 2 then
        (case bs of
           [] \<Rightarrow> None
         | s # r \<Rightarrow> map_option (\<lambda>(n, r'). (JNumber (if s = 1 then - int n else int n), r')) (read_nat r))
      else if t = 3 then map_option (\<lambda>(s, r). (JString s, r)) (read_string bs)
      else if t = 4 then map_option (\<lambda>(xs, r). (JArray xs, r)) (read_elements f bs)
      else if t = 5 then map_option (\<lambda>(ms, r). (JObject ms, r)) (read_members f bs)
      else None)"
| "read_elements 0 bs = None"
| "read_elements (Suc f) [] = None"
| "read_elements (Suc f) (t # bs) =
     (if t = 0 then Some ([], bs)
      else if t = 1 then
        (case read_json f bs of
           None \<Rightarrow> None
         | Some (x, r) \<Rightarrow> map_option (\<lambda>(xs, r'). (x # xs, r')) (read_elements f r))
      else None)"
| "read_members 0 bs = None"
| "read_members (Suc f) [] = None"
| "read_members (Suc f) (t # bs) =
     (if t = 0 then Some ([], bs)
      else if t = 1 then
        (case read_string bs of
           None \<Rightarrow> None
         | Some (k, r) \<Rightarrow>
             (case read_json f r of
                None \<Rightarrow> None
              | Some (x, r') \<Rightarrow> map_option (\<lambda>(ms, r''). ((k, x) # ms, r'')) (read_members f r')))
      else None)"

definition simple_value :: "bytes \<Rightarrow> json option" where
  "simple_value bs =
     (case read_json (Suc (length bs)) bs of
        Some (v, []) \<Rightarrow> Some v
      | _ \<Rightarrow> None)"

definition simple_to_valid_utf8 :: "string \<Rightarrow> string" where
  "simple_to_valid_utf8 s = (if valid_utf8 s then s else [])"

definition simple_base16 :: "bytes \<Rightarrow> string" where
  "simple_base16 bs =
     concat (map (\<lambda>b. [char_of (97 + unat b div 16), char_of (97 + unat b mod 16)]) bs)"

fun read_base16 :: "string \<Rightarrow> bytes option" where
  "read_base16 [] = Some []"
| "read_base16 [c] = None"
| "read_base16 (c1 # c2 # cs) =
     (if 97 \<le> (of_char c1 :: nat) \<and> (of_char c1 :: nat) < 113
         \<and> 97 \<le> (of_char c2 :: nat) \<and> (of_char c2 :: nat) < 113
      then map_option ((#) (of_nat ((of_char c1 - 97) * 16 + (of_char c2 - 97)))) (read_base16 cs)
      else None)"

definition year_1 :: int where "year_1 = - 62135596800000000000"

definition year_10000 :: int where "year_10000 = 253402300800000000000"

fun simple_Time_text :: "Time \<Rightarrow> string option" where
  "simple_Time_text (UnixNano n) =
     (if n < year_1 \<or> year_10000 \<le> n then None
      else Some ((if n < 0 then CHR ''-'' else CHR ''+'')
                   # map (\<lambda>b. char_of (48 + unat b)) (simple_nat (nat \<bar>n\<bar>))))"

definition read_Time :: "string \<Rightarrow> Time option" where
  "read_Time s =
     (case s of
        [] \<Rightarrow> None
      | c # cs \<Rightarrow>
          (case read_nat (map (\<lambda>d. of_nat (of_char d - 48)) cs) of
             Some (m, []) \<Rightarrow>
               if c = CHR ''-'' then Some (UnixNano (- int m))
               else if c = CHR ''+'' then Some (UnixNano (int m))
               else None
           | _ \<Rightarrow> None))"

definition simple_json :: json_library where
  "simple_json =
     \<lparr>json_text = simple_text,
      json_value = simple_value,
      to_valid_utf8 = simple_to_valid_utf8,
      fold_name = id,
      base64_EncodeToString = simple_base16,
      base64_DecodeString = read_base16,
      Time_MarshalJSON = simple_Time_text,
      Time_UnmarshalJSON = read_Time\<rparr>"

section \<open>Facts about the model\<close>

subsection \<open>Words and buffers\<close>

lemma word_one_le: "1 \<le> x \<longleftrightarrow> x \<noteq> (0 :: 'a :: len word)"
  by (metis word_less_1 not_less)

lemma replicate_numeral: "replicate (numeral n) x = x # replicate (pred_numeral n) x"
  by (simp add: numeral_eq_Suc)

text \<open>After \<open>n\<close> rounds the loop of \<open>ClearBytes\<close> has zeroed the first \<open>n\<close> bytes.\<close>

lemma ClearBytes_prefix:
  "n \<le> length data \<Longrightarrow>
     fold (\<lambda>i d. d[i := 0]) [0..<n] data = replicate n (0::byte) @ drop n data"
proof (induction n)
  case 0
  then show ?case by simp
next
  case (Suc n)
  then have "fold (\<lambda>i d. d[i := 0]) [0..<Suc n] data = (replicate n 0 @ drop n data)[n := 0]"
    by simp
  also have "\<dots> = replicate n 0 @ (drop n data)[0 := 0]"
    by (simp add: list_update_append)
  also have "(drop n data)[0 := 0] = 0 # drop (Suc n) data"
    using Suc.prems by (simp add: Cons_nth_drop_Suc [symmetric])
  finally show ?case by (simp add: replicate_append_same)
qed

lemma ClearBytes_zero: "ClearBytes data = replicate (length data) 0"
  by (simp add: ClearBytes_def ClearBytes_prefix)

subsection \<open>The random source\<close>

lemma rand_Read_Some:
  "rand_Read n source = (Some buf, source')
     \<longleftrightarrow> n \<le> length source \<and> buf = take n source \<and> source' = drop n source"
  by (auto simp: rand_Read_def)

lemma GenerateSalt_Inr:
  "GenerateSalt source = (Inr salt, source')
     \<longleftrightarrow> 32 \<le> length source \<and> salt = take 32 source \<and> source' = drop 32 source"
  by (auto simp: GenerateSalt_def rand_Read_def)

lemma GenerateNonce_Inr:
  "GenerateNonce source = (Inr nonce, source')
     \<longleftrightarrow> 12 \<le> length source \<and> nonce = take 12 source \<and> source' = drop 12 source"
  by (auto simp: GenerateNonce_def rand_Read_def)

lemma split_sealed_Inr:
  "split_sealed salt nonce sealed tagSize = Inr r
     \<longleftrightarrow> tagSize \<le> length sealed
         \<and> r = \<lparr>EncryptionResult.Salt = salt, Nonce = nonce,
                 Ciphertext = take (length sealed - tagSize) sealed,
                 Tag = drop (length sealed - tagSize) sealed\<rparr>"
  by (auto simp: split_sealed_def)

subsection \<open>What the library contract gives\<close>

lemma IDKey_length:
  "library_contract L \<Longrightarrow> argon2_IDKey L pw salt t m p kl = Done key \<Longrightarrow> length key = unat kl"
  unfolding library_contract_def by blast

lemma IDKey_Panic:
  "library_contract L \<Longrightarrow> t < 1 \<or> p < 1 \<Longrightarrow> argon2_IDKey L pw salt t m p kl = Panic"
  unfolding library_contract_def by blast

lemma IDKey_Done:
  "library_contract L \<Longrightarrow> 1 \<le> t \<Longrightarrow> 1 \<le> p \<Longrightarrow> 1 \<le> kl
     \<Longrightarrow> \<exists>key. argon2_IDKey L pw salt t m p kl = Done key"
  unfolding library_contract_def by blast

lemma aes_NewCipher_cases:
  assumes "library_contract L"
  shows "if length key = 16 \<or> length key = 24 \<or> length key = 32
         then (\<exists>block. aes_NewCipher L key = Some block \<and> BlockSize block = 16)
         else aes_NewCipher L key = None"
  using assms unfolding library_contract_def by blast

lemma aes_NewCipher_Some:
  assumes "library_contract L" "aes_NewCipher L key = Some block"
  shows "BlockSize block = 16"
  using aes_NewCipher_cases [OF assms(1), of key] assms(2)
  by (auto split: if_splits)

lemma aes_NewCipher_accepts:
  assumes "library_contract L" "length key = 16 \<or> length key = 24 \<or> length key = 32"
  shows "\<exists>block. aes_NewCipher L key = Some block \<and> BlockSize block = 16"
  using aes_NewCipher_cases [OF assms(1), of key] assms(2)
  by (auto split: if_splits)

lemma cipher_NewGCM_accepts:
  "library_contract L \<Longrightarrow> BlockSize block = 16
     \<Longrightarrow> \<exists>gcm. cipher_NewGCM L block = Some gcm \<and> AEAD_contract gcm_limit gcm"
  unfolding library_contract_def by blast

lemma aes_gcm_contract:
  "library_contract L \<Longrightarrow> aes_NewCipher L key = Some block \<Longrightarrow> cipher_NewGCM L block = Some gcm
     \<Longrightarrow> AEAD_contract gcm_limit gcm"
  using aes_NewCipher_Some [of L key block] cipher_NewGCM_accepts [of L block] by auto

lemma chacha20poly1305_New_cases:
  assumes "library_contract L"
  shows "if length key = 32
         then (\<exists>aead. chacha20poly1305_New L key = Some aead
                 \<and> AEAD_contract chacha20poly1305_limit aead)
         else chacha20poly1305_New L key = None"
  using assms unfolding library_contract_def by blast

lemma chacha20poly1305_New_Some:
  assumes "library_contract L" "chacha20poly1305_New L key = Some aead"
  shows "AEAD_contract chacha20poly1305_limit aead"
  using chacha20poly1305_New_cases [OF assms(1), of key] assms(2)
  by (auto split: if_splits)

lemma AEAD_contract_sizes:
  "AEAD_contract limit a \<Longrightarrow> NonceSize a = 12 \<and> Overhead a = 16"
  unfolding AEAD_contract_def by blast

lemma AEAD_contract_Seal:
  "AEAD_contract limit a \<Longrightarrow> Seal a nonce plaintext ad = Done sealed
     \<Longrightarrow> length plaintext \<le> limit \<and> length sealed = length plaintext + 16
         \<and> Open a nonce sealed ad = Done (Some plaintext)"
  unfolding AEAD_contract_def by blast

lemma AEAD_contract_Seal_returns:
  "AEAD_contract limit a \<Longrightarrow> length nonce = 12 \<Longrightarrow> length plaintext \<le> limit
     \<Longrightarrow> \<exists>sealed. Seal a nonce plaintext ad = Done sealed"
  unfolding AEAD_contract_def by blast

lemma AEAD_contract_Open_returns:
  "AEAD_contract limit a \<Longrightarrow> length nonce = 12 \<Longrightarrow> length sealed \<le> limit + 16
     \<Longrightarrow> Open a nonce sealed ad \<noteq> Panic"
  unfolding AEAD_contract_def by blast

text \<open>Either construction accepts a 32-byte key and yields an AEAD within the contract.\<close>

lemma construction_accepts:
  assumes L: "library_contract L" and key: "length key = 32"
    and alg: "alg = ''AES-256-GCM'' \<or> alg = ''ChaCha20-Poly1305''"
  shows "\<exists>new aead. construction L alg = Some new \<and> new key = Inr aead
           \<and> AEAD_contract (if alg = ''AES-256-GCM'' then gcm_limit else chacha20poly1305_limit) aead"
proof (cases "alg = ''AES-256-GCM''")
  case True
  from aes_NewCipher_accepts [OF L, of key] key obtain block
    where block: "aes_NewCipher L key = Some block" "BlockSize block = 16" by auto
  from cipher_NewGCM_accepts [OF L block(2)] obtain gcm
    where "cipher_NewGCM L block = Some gcm" "AEAD_contract gcm_limit gcm" by auto
  with True block show ?thesis by (simp add: construction_def)
next
  case False
  with alg have chacha: "alg = ''ChaCha20-Poly1305''" by simp
  from chacha20poly1305_New_cases [OF L, of key] key obtain aead
    where "chacha20poly1305_New L key = Some aead" "AEAD_contract chacha20poly1305_limit aead"
    by auto
  with chacha show ?thesis by (simp add: construction_def)
qed

subsection \<open>The executable library meets the contract\<close>

lemma length_simple_tag: "length (simple_tag key) = 16"
  by (simp add: simple_tag_def)

lemma simple_AEAD_contract: "AEAD_contract limit (simple_AEAD limit key)"
  unfolding AEAD_contract_def simple_AEAD_def
  by (auto simp: length_simple_tag comp_def split: if_splits)

lemma simple_library_contract: "library_contract simple_library"
  unfolding library_contract_def simple_library_def
  by (auto simp: simple_AEAD_contract simple_IDKey_def word_one_le split: if_splits)

subsection \<open>Decrypt and Encrypt, end to end\<close>

lemma fst_Decrypt: "fst (Decrypt L a Q) = spec_Decrypt L a Q"
  by (auto simp: Decrypt_def spec_Decrypt_def construction_def DecryptAES_def DecryptChaCha20_def
      DecryptAES_body_def DecryptChaCha20_body_def DeriveKey_def authenticated_open_def Let_def
      format_AlgorithmAESGCM_def format_AlgorithmChaCha20_def
      split: may_panic.splits option.splits)

lemma snd_Decrypt:
  "snd (Decrypt L a Q) =
     (if Algorithm (Header a) = format_AlgorithmAESGCM \<or> Algorithm (Header a) = format_AlgorithmChaCha20
      then (case DeriveKey L Q (EncryptedFile.Salt a)
                   \<lparr>KDFParams.Iterations = Header.Iterations (Header a),
                    Memory = Header.Memory (Header a),
                    Threads = Header.Threads (Header a), KeyLength = 32\<rparr> of
              Panic \<Rightarrow> None
            | Done key \<Rightarrow> Some (ClearBytes key))
      else None)"
  by (simp add: Decrypt_def DecryptAES_def DecryptChaCha20_def Let_def
      format_AlgorithmAESGCM_def format_AlgorithmChaCha20_def split: may_panic.splits)

lemma spec_Decrypt_same_key:
  assumes "argon2_IDKey L Q1 (EncryptedFile.Salt a) (Header.Iterations (Header a))
      (Header.Memory (Header a) * 1024) (Header.Threads (Header a)) 32
    = argon2_IDKey L Q2 (EncryptedFile.Salt a) (Header.Iterations (Header a))
      (Header.Memory (Header a) * 1024) (Header.Threads (Header a)) 32"
  shows "spec_Decrypt L a Q1 = spec_Decrypt L a Q2"
  using assms by (simp add: spec_Decrypt_def split: option.splits)

lemma fst_Encrypt:
  "fst (Encrypt L source data Q alg params) =
     (case construction L alg of
        None \<Rightarrow> Failed (UnsupportedAlgorithm alg)
      | Some new \<Rightarrow>
          if length source < 32 then Failed FailedToGenerateSalt
          else (case DeriveKey L Q (take 32 source) params of
                  Panic \<Rightarrow> Panic
                | Done key \<Rightarrow>
                    (case new key of
                       Inl e \<Rightarrow> Failed e
                     | Inr aead \<Rightarrow>
                         (case rand_Read (if alg = ''AES-256-GCM'' then 12 else NonceSize aead)
                                 (drop 32 source) of
                            (None, s) \<Rightarrow> Failed FailedToGenerateNonce
                          | (Some nonce, s) \<Rightarrow>
                              (case Seal aead nonce data [] of
                                 Panic \<Rightarrow> Panic
                               | Done sealed \<Rightarrow>
                                   Done (split_sealed (take 32 source) nonce sealed (Overhead aead)))))))"
  by (auto simp: Encrypt_def construction_def EncryptAES_def EncryptChaCha20_def
      EncryptAES_body_def EncryptChaCha20_body_def GenerateSalt_def GenerateNonce_def rand_Read_def
      format_AlgorithmAESGCM_def format_AlgorithmChaCha20_def
      split: option.splits may_panic.splits prod.splits sum.splits)

lemma key_buffer_Encrypt:
  "fst (snd (Encrypt L source P Q alg params)) =
     (if (alg = format_AlgorithmAESGCM \<or> alg = format_AlgorithmChaCha20) \<and> 32 \<le> length source
      then (case DeriveKey L Q (take 32 source) params of
              Panic \<Rightarrow> None
            | Done key \<Rightarrow> Some (ClearBytes key))
      else None)"
  by (simp add: Encrypt_def EncryptAES_def EncryptChaCha20_def GenerateSalt_def rand_Read_def
      format_AlgorithmAESGCM_def format_AlgorithmChaCha20_def
      split: may_panic.splits prod.splits)

text \<open>
  What a successful \<open>Encrypt\<close> has done: the first 32 bytes of the source are the salt,
  the next 12 the nonce; the key derived from them built an AEAD of the selected
  construction, and the result is the split of what that AEAD sealed.
\<close>

lemma Encrypt_Returned:
  assumes L: "library_contract L"
    and r: "fst (Encrypt L source data Q alg params) = Returned r"
  shows "\<exists>new key aead sealed.
           construction L alg = Some new
           \<and> 44 \<le> length source
           \<and> DeriveKey L Q (take 32 source) params = Done key
           \<and> new key = Inr aead
           \<and> AEAD_contract (if alg = ''AES-256-GCM'' then gcm_limit else chacha20poly1305_limit) aead
           \<and> Seal aead (take 12 (drop 32 source)) data [] = Done sealed
           \<and> r = \<lparr>EncryptionResult.Salt = take 32 source, Nonce = take 12 (drop 32 source),
                   Ciphertext = take (length sealed - 16) sealed,
                   Tag = drop (length sealed - 16) sealed\<rparr>"
proof -
  from r obtain new where new: "construction L alg = Some new"
    by (auto simp: fst_Encrypt split: option.splits)
  then have alg: "alg = ''AES-256-GCM'' \<or> alg = ''ChaCha20-Poly1305''"
    by (auto simp: construction_def split: if_splits)
  from r new have salt: "32 \<le> length source"
    by (auto simp: fst_Encrypt split: if_splits)
  from r new salt obtain key where key: "DeriveKey L Q (take 32 source) params = Done key"
    by (auto simp: fst_Encrypt split: may_panic.splits)
  from r new salt key obtain aead where aead: "new key = Inr aead"
    by (auto simp: fst_Encrypt split: sum.splits)
  have contract:
    "AEAD_contract (if alg = ''AES-256-GCM'' then gcm_limit else chacha20poly1305_limit) aead"
    using new aead alg
    by (auto simp: construction_def split: if_splits option.splits
        dest: aes_gcm_contract [OF L] chacha20poly1305_New_Some [OF L])
  then have sizes: "(if alg = ''AES-256-GCM'' then 12 else NonceSize aead) = 12" "Overhead aead = 16"
    by (simp_all add: AEAD_contract_sizes)
  from r new salt key aead sizes obtain nonce rest
    where nonce: "rand_Read 12 (drop 32 source) = (Some nonce, rest)"
    by (auto simp: fst_Encrypt split: prod.splits option.splits)
  then have n: "44 \<le> length source" "nonce = take 12 (drop 32 source)"
    by (auto simp: rand_Read_Some)
  from r new salt key aead sizes nonce obtain sealed
    where sealed: "Seal aead nonce data [] = Done sealed"
    by (auto simp: fst_Encrypt split: may_panic.splits)
  from r new salt key aead sizes nonce sealed
  have "split_sealed (take 32 source) nonce sealed 16 = Inr r"
    by (simp add: fst_Encrypt)
  with new key aead contract n sealed show ?thesis
    by (auto simp: split_sealed_Inr)
qed

text \<open>
  \<open>Encrypt\<close> returns a result when the source holds 44 bytes, the cost parameters are at
  least 1, the key length is 32 and the plaintext is within the construction's limit.
\<close>

lemma Encrypt_succeeds:
  assumes L: "library_contract L"
    and alg: "alg = ''AES-256-GCM'' \<or> alg = ''ChaCha20-Poly1305''"
    and src: "44 \<le> length source"
    and params: "1 \<le> KDFParams.Iterations params" "1 \<le> KDFParams.Threads params"
      "KeyLength params = 32"
    and P: "length P \<le> (if alg = ''AES-256-GCM'' then gcm_limit else chacha20poly1305_limit)"
  shows "\<exists>r. fst (Encrypt L source P Q alg params) = Returned r"
proof -
  have "1 \<le> (32 :: uint32)" by simp
  from IDKey_Done [OF L params(1) params(2) this] obtain key
    where key: "DeriveKey L Q (take 32 source) params = Done key"
    unfolding DeriveKey_def params(3) by blast
  then have "length key = 32"
    using IDKey_length [OF L] by (fastforce simp: DeriveKey_def params(3))
  from construction_accepts [OF L this alg] obtain new aead where
    new: "construction L alg = Some new" "new key = Inr aead" and
    contract: "AEAD_contract (if alg = ''AES-256-GCM'' then gcm_limit else chacha20poly1305_limit) aead"
    by blast
  from contract
  have sizes: "(if alg = ''AES-256-GCM'' then 12 else NonceSize aead) = 12" "Overhead aead = 16"
    by (simp_all add: AEAD_contract_sizes)
  from src have nonce: "length (take 12 (drop 32 source)) = 12" by simp
  from AEAD_contract_Seal_returns [OF contract nonce P] obtain sealed
    where sealed: "Seal aead (take 12 (drop 32 source)) P [] = Done sealed" by blast
  from AEAD_contract_Seal [OF contract sealed] have "16 \<le> length sealed" by simp
  with src new key sizes sealed show ?thesis
    by (simp add: fst_Encrypt rand_Read_def split_sealed_def)
qed

text \<open>Decrypting, under the same passphrase, what was encrypted.\<close>

lemma Decrypt_Encrypt:
  assumes L: "library_contract L"
    and enc: "fst (Encrypt L source P Q alg params) = Returned r"
    and hdr: "records header alg params"
  shows "fst (Decrypt L (artifact header r) Q) = Returned P"
proof -
  from hdr have len: "KeyLength params = 32"
    by (simp add: records_def)
  from Encrypt_Returned [OF L enc] obtain new key aead sealed limit where
    new: "construction L alg = Some new" and
    key: "DeriveKey L Q (take 32 source) params = Done key" and
    aead: "new key = Inr aead" and
    contract: "AEAD_contract limit aead" and
    sealed: "Seal aead (take 12 (drop 32 source)) P [] = Done sealed" and
    r: "r = \<lparr>EncryptionResult.Salt = take 32 source, Nonce = take 12 (drop 32 source),
             Ciphertext = take (length sealed - 16) sealed,
             Tag = drop (length sealed - 16) sealed\<rparr>"
    by blast
  from AEAD_contract_Seal [OF contract sealed]
  have opens: "Open aead (take 12 (drop 32 source)) sealed [] = Done (Some P)"
    by simp
  from key len hdr
  have key': "argon2_IDKey L Q (take 32 source) (Header.Iterations header)
      (Header.Memory header * 1024) (Header.Threads header) 32 = Done key"
    by (simp add: DeriveKey_def records_def)
  from hdr have alg: "Algorithm header = alg"
    by (simp add: records_def)
  show ?thesis
    by (simp add: fst_Decrypt spec_Decrypt_def artifact_def r alg new key' aead
        authenticated_open_def opens)
qed

subsection \<open>Passphrases that derive the same key\<close>

lemma card_bytes_of_length: "card {xs :: bytes. length xs = n} = 256 ^ n"
  using card_lists_length_eq [of "UNIV :: byte set" n] by (simp add: card_word)

lemma finite_bytes_of_length: "finite {xs :: bytes. length xs = n}"
  using finite_lists_length_eq [of "UNIV :: byte set" n] by simp

text \<open>
  There are more 33-byte passphrases than outcomes of a derivation of 32 bytes, so for
  every salt and cost two different passphrases share their outcome.
\<close>

lemma passphrase_collision:
  assumes L: "library_contract L"
  shows "\<exists>Q1 Q2. Q1 \<noteq> Q2 \<and> argon2_IDKey L Q1 salt t m p 32 = argon2_IDKey L Q2 salt t m p 32"
proof -
  let ?f = "\<lambda>Q. argon2_IDKey L Q salt t m p 32"
  let ?A = "{Q :: bytes. length Q = 33}"
  let ?B = "insert Panic (Done ` {k :: bytes. length k = 32})"
  have "?f ` ?A \<subseteq> ?B"
  proof
    fix y assume "y \<in> ?f ` ?A"
    then obtain Q where y: "y = ?f Q" by blast
    show "y \<in> ?B"
    proof (cases y)
      case (Done key)
      with y IDKey_length [OF L, of Q salt t m p 32 key] have "length key = 32" by simp
      with Done show ?thesis by blast
    next
      case Panic
      then show ?thesis by simp
    qed
  qed
  moreover have "finite ?B"
    by (simp add: finite_bytes_of_length)
  ultimately have "card (?f ` ?A) \<le> card ?B"
    by (rule card_mono [rotated])
  also have "card ?B \<le> Suc (card (Done ` {k :: bytes. length k = 32}))"
    by (simp add: card_insert_if finite_bytes_of_length)
  also have "\<dots> \<le> Suc (256 ^ 32)"
    using card_image_le [OF finite_bytes_of_length, of Done 32] by (simp add: card_bytes_of_length)
  also have "\<dots> < card ?A"
    by (simp add: card_bytes_of_length)
  finally have "\<not> inj_on ?f ?A"
    using pigeonhole by blast
  then show ?thesis
    unfolding inj_on_def by blast
qed

text \<open>
  Hence, whatever library meets the contract, some artifact encrypted under one
  passphrase decrypts under another. That \<open>Decrypt\<close> rejects another passphrase is
  therefore not a property of every pair of passphrases: it rests on the collision
  resistance of the derivation and on the authenticity of the AEAD, which hold up to a
  negligible probability and are not part of this model.
\<close>

lemma wrong_passphrase_accepted:
  assumes L: "library_contract L"
  shows "\<exists>Q1 Q2 r. Q1 \<noteq> Q2
    \<and> fst (Encrypt L example_source example_plaintext Q1 format_AlgorithmAESGCM FastKDFParams)
        = Returned r
    \<and> fst (Decrypt L (artifact example_header r) Q2) = Returned example_plaintext"
proof -
  from passphrase_collision [OF L, of "take 32 example_source" 1000 "8 * 1024" 1] obtain Q1 Q2 where
    neq: "Q1 \<noteq> Q2" and
    same: "argon2_IDKey L Q1 (take 32 example_source) 1000 (8 * 1024) 1 32
      = argon2_IDKey L Q2 (take 32 example_source) 1000 (8 * 1024) 1 32"
    by blast
  have "\<exists>r. fst (Encrypt L example_source example_plaintext Q1 ''AES-256-GCM'' FastKDFParams)
      = Returned r"
    by (rule Encrypt_succeeds [OF L])
      (simp_all add: example_source_def example_plaintext_def FastKDFParams_def gcm_limit_def)
  then obtain r where r: "fst (Encrypt L example_source example_plaintext Q1
      format_AlgorithmAESGCM FastKDFParams) = Returned r"
    by (auto simp: format_AlgorithmAESGCM_def)
  have rec: "records example_header format_AlgorithmAESGCM FastKDFParams"
    by (simp add: records_def example_header_def FastHeader_def FastKDFParams_def)
  from Encrypt_Returned [OF L r] have salt: "EncryptionResult.Salt r = take 32 example_source"
    by auto
  have "fst (Decrypt L (artifact example_header r) Q1) = Returned example_plaintext"
    using Decrypt_Encrypt [OF L r rec] .
  moreover have "spec_Decrypt L (artifact example_header r) Q1
      = spec_Decrypt L (artifact example_header r) Q2"
    by (rule spec_Decrypt_same_key)
      (use same in \<open>simp add: artifact_def example_header_def FastHeader_def salt\<close>)
  ultimately have "fst (Decrypt L (artifact example_header r) Q2) = Returned example_plaintext"
    by (simp add: fst_Decrypt)
  with neq r show ?thesis by blast
qed

subsection \<open>Validation and the cost parameters\<close>

lemma Validate_ignores_cost:
  "ValidateEncryptedFile
     (a\<lparr>Header := (Header a)\<lparr>Header.Iterations := i, Header.Memory := m,
                               Header.Threads := t\<rparr>\<rparr>)
     = ValidateEncryptedFile a"
  by (simp add: ValidateEncryptedFile_def)

lemma Validate_None_algorithm:
  "ValidateEncryptedFile a = None
     \<Longrightarrow> Algorithm (Header a) = format_AlgorithmAESGCM
         \<or> Algorithm (Header a) = format_AlgorithmChaCha20"
  by (auto simp: ValidateEncryptedFile_def split: if_splits)

subsection \<open>The package on the concrete inputs\<close>

lemmas run_defs =
  Encrypt_def EncryptAES_def EncryptAES_body_def EncryptChaCha20_def EncryptChaCha20_body_def
  GenerateSalt_def GenerateNonce_def rand_Read_def DeriveKey_def split_sealed_def
  Decrypt_def DecryptAES_def DecryptAES_body_def DecryptChaCha20_def DecryptChaCha20_body_def
  simple_library_def simple_AEAD_def simple_IDKey_def simple_tag_def artifact_def
  format_Version_def format_AlgorithmAESGCM_def format_AlgorithmChaCha20_def
  FastKDFParams_def FastHeader_def gcm_limit_def chacha20poly1305_limit_def
  example_source_def example_plaintext_def example_passphrase_def example_header_def
  example_result_def example_result_chacha_def

lemma example_Encrypt:
  "fst (Encrypt simple_library example_source example_plaintext example_passphrase
     format_AlgorithmAESGCM FastKDFParams) = Returned example_result"
  by (simp add: run_defs replicate_numeral)

lemma example_Encrypt_chacha:
  "fst (Encrypt simple_library example_source example_plaintext example_passphrase
     format_AlgorithmChaCha20 FastKDFParams) = Returned example_result_chacha"
  by (simp add: run_defs replicate_numeral)

lemma example_records:
  "records example_header format_AlgorithmAESGCM FastKDFParams"
  by (simp add: records_def example_header_def FastHeader_def FastKDFParams_def)

lemma example_Validate: "ValidateEncryptedFile (artifact example_header example_result) = None"
  by (simp add: ValidateEncryptedFile_def run_defs)

subsection \<open>What the JSON contract gives\<close>

lemma valid_utf8_literals [simp]:
  "valid_utf8 ''version''" "valid_utf8 ''algorithm''" "valid_utf8 ''kdf''"
  "valid_utf8 ''iterations''" "valid_utf8 ''memory''" "valid_utf8 ''threads''"
  "valid_utf8 ''timestamp''" "valid_utf8 ''comment''" "valid_utf8 ''header''"
  "valid_utf8 ''salt''" "valid_utf8 ''nonce''" "valid_utf8 ''ciphertext''" "valid_utf8 ''tag''"
  by (simp_all add: valid_utf8_def)

lemma assign_uint_uint: "assign_uint (JNumber (uint w)) current = Inr w"
  by (simp add: assign_uint_def)

lemma to_valid_utf8_Nil: "json_contract J \<Longrightarrow> to_valid_utf8 J [] = []"
  unfolding json_contract_def by (simp add: valid_utf8_def)

text \<open>Every value \<open>ToJSON\<close> hands to the renderer is well formed.\<close>

lemma wellformed_EncryptedFile_json:
  assumes J: "json_contract J" and v: "EncryptedFile_json J a = Inr v"
  shows "wellformed v"
proof -
  from v obtain timestamp where ts: "Time_MarshalJSON J (Timestamp (Header a)) = Some timestamp"
    by (auto simp: EncryptedFile_json_def split: option.splits)
  with J have "valid_utf8 timestamp"
    unfolding json_contract_def by blast
  moreover from J have "valid_utf8 (to_valid_utf8 J s)" "valid_utf8 (base64_EncodeToString J bs)"
    for s bs
    unfolding json_contract_def by blast+
  ultimately show ?thesis
    using v ts by (auto simp: EncryptedFile_json_def Header_members_def)
qed

text \<open>
  Assigning the members of a marshalled header to the zero header gives the header back,
  with its strings coerced. An empty comment has no member and stays empty.
\<close>

lemma assign_Header_members_coerced:
  assumes J: "json_contract J"
    and ts: "Time_MarshalJSON J (Timestamp h) = Some timestamp"
  shows "assign_Header J (JObject (Header_members J h timestamp)) zero_Header
    = Inr (h\<lparr>Version := to_valid_utf8 J (Version h), Algorithm := to_valid_utf8 J (Algorithm h),
             KDF := to_valid_utf8 J (KDF h), Comment := to_valid_utf8 J (Comment h)\<rparr>)"
proof -
  from J ts have time: "Time_UnmarshalJSON J timestamp = Some (Timestamp h)"
    unfolding json_contract_def by blast
  from time to_valid_utf8_Nil [OF J] show ?thesis
    by (cases h)
      (simp add: assign_Header_def Header_members_def assign_Header_member_def field_for_def
        Header_fields_def assign_string_def assign_uint_uint assign_Time_def zero_Header_def)
qed

lemma FromJSON_ToJSON_coerced:
  assumes J: "json_contract J"
    and data: "ToJSON J a = Inr data"
  shows "FromJSON J data = Inr (coerced J a)"
proof -
  from data obtain v where v: "EncryptedFile_json J a = Inr v" and rendered: "data = json_text J v"
    by (auto simp: ToJSON_def split: sum.splits)
  from v obtain timestamp where ts: "Time_MarshalJSON J (Timestamp (Header a)) = Some timestamp"
    by (auto simp: EncryptedFile_json_def split: option.splits)
  from J wellformed_EncryptedFile_json [OF J v] have "json_value J (json_text J v) = Some v"
    unfolding json_contract_def by blast
  then have "FromJSON J data = assign_EncryptedFile J v zero_EncryptedFile"
    by (simp add: FromJSON_def rendered)
  moreover from J have "base64_DecodeString J (base64_EncodeToString J bs) = Some bs" for bs
    unfolding json_contract_def by blast
  moreover from v ts have "v = JObject
            [(''header'', JObject (Header_members J (Header a) timestamp)),
             (''salt'', JString (base64_EncodeToString J (EncryptedFile.Salt a))),
             (''nonce'', JString (base64_EncodeToString J (EncryptedFile.Nonce a))),
             (''ciphertext'', JString (base64_EncodeToString J (EncryptedFile.Ciphertext a))),
             (''tag'', JString (base64_EncodeToString J (EncryptedFile.Tag a)))]"
    by (simp add: EncryptedFile_json_def)
  ultimately show ?thesis
    using assign_Header_members_coerced [OF J ts]
    by (simp add: assign_EncryptedFile_def assign_EncryptedFile_member_def
        field_for_def EncryptedFile_fields_def assign_bytes_def zero_EncryptedFile_def coerced_def)
qed

lemma coerced_valid:
  assumes J: "json_contract J"
    and "valid_utf8 (Version (Header a))" "valid_utf8 (Algorithm (Header a))"
      "valid_utf8 (KDF (Header a))" "valid_utf8 (Comment (Header a))"
  shows "coerced J a = a"
proof -
  from assms have "to_valid_utf8 J (Version (Header a)) = Version (Header a)"
    "to_valid_utf8 J (Algorithm (Header a)) = Algorithm (Header a)"
    "to_valid_utf8 J (KDF (Header a)) = KDF (Header a)"
    "to_valid_utf8 J (Comment (Header a)) = Comment (Header a)"
    unfolding json_contract_def by blast+
  then show ?thesis by (simp add: coerced_def)
qed

lemma invalid_comment_not_coerced:
  assumes J: "json_contract J"
  shows "coerced J invalid_comment \<noteq> invalid_comment"
proof
  assume "coerced J invalid_comment = invalid_comment"
  then have "Comment (Header (coerced J invalid_comment)) = Comment (Header invalid_comment)"
    by simp
  then have "to_valid_utf8 J [CHR 0xFF] = [CHR 0xFF]"
    by (simp add: coerced_def invalid_comment_def zero_EncryptedFile_def)
  moreover from J have "valid_utf8 (to_valid_utf8 J [CHR 0xFF])"
    unfolding json_contract_def by blast
  ultimately show False
    by (simp add: valid_utf8_def)
qed

subsection \<open>The executable JSON library meets the contract\<close>

lemma simple_nat_0: "simple_nat 0 = [0]"
  by (simp add: simple_nat.simps)

lemma simple_nat_nonempty: "simple_nat n \<noteq> []"
  by (subst simple_nat.simps) simp

lemma read_simple_nat: "read_nat (simple_nat n @ r) = Some (n, r)"
proof (induction n rule: simple_nat.induct)
  case (1 n)
  show ?case
  proof (cases "n = 0")
    case True
    then show ?thesis by (simp add: simple_nat_0)
  next
    case False
    with 1 have "read_nat (simple_nat (n div 2) @ r) = Some (n div 2, r)" by simp
    moreover from False have "simple_nat n = (if even n then 1 else 2) # simple_nat (n div 2)"
      by (subst simple_nat.simps) simp
    ultimately show ?thesis
      by (simp add: even_two_times_div_two odd_two_times_div_two_succ)
  qed
qed

lemma read_simple_string: "read_string (simple_string s @ r) = Some (s, r)"
  by (simp add: read_string_def simple_string_def read_simple_nat comp_def unat_of_nat)

text \<open>With more fuel than the size of the value, the reader returns the value.\<close>

lemma read_simple_text:
  "size v < f \<Longrightarrow> read_json f (simple_text v @ r) = Some (v, r)"
proof (induction v arbitrary: f r)
  case (JArray xs)
  have elems: "size_list size ys < g \<Longrightarrow> set ys \<subseteq> set xs \<Longrightarrow>
      read_elements g (concat (map (\<lambda>t. 1 # t) (map simple_text ys)) @ 0 # r) = Some (ys, r)"
    for ys g
  proof (induction ys arbitrary: g)
    case Nil
    then show ?case by (cases g) simp_all
  next
    case (Cons y ys)
    then obtain g' where g: "g = Suc g'" by (cases g) auto
    from Cons.prems g have "size y < g'" "size_list size ys < g'" by simp_all
    moreover from Cons.prems have "y \<in> set xs" "set ys \<subseteq> set xs" by simp_all
    ultimately show ?case
      using JArray.IH [of y g'] Cons.IH [of g'] g by simp
  qed
  from JArray.prems obtain f' where f: "f = Suc f'" by (cases f) auto
  with JArray.prems have "size_list size xs < f'" by simp
  from elems [OF this] f show ?case by simp
next
  case (JObject ms)
  have membs: "size_list (size_prod (\<lambda>_. 0) size) ns < g \<Longrightarrow> set ns \<subseteq> set ms \<Longrightarrow>
      read_members g (concat (map (\<lambda>(k, t). 1 # simple_string k @ t)
        (map (map_prod id simple_text) ns)) @ 0 # r) = Some (ns, r)"
    for ns g
  proof (induction ns arbitrary: g)
    case Nil
    then show ?case by (cases g) simp_all
  next
    case (Cons n ns)
    obtain k x where n: "n = (k, x)" by (cases n)
    from Cons.prems obtain g' where g: "g = Suc g'" by (cases g) auto
    from Cons.prems g n have "size x < g'" "size_list (size_prod (\<lambda>_. 0) size) ns < g'"
      by simp_all
    moreover from Cons.prems n have "(k, x) \<in> set ms" "set ns \<subseteq> set ms" by simp_all
    ultimately show ?case
      using JObject.IH [of "(k, x)" x g'] Cons.IH [of g'] g n
      by (simp add: read_simple_string)
  qed
  from JObject.prems obtain f' where f: "f = Suc f'" by (cases f) auto
  with JObject.prems have "size_list (size_prod (\<lambda>_. 0) size) ms < f'" by simp
  from membs [OF this] f show ?case by simp
next
  case JNull
  then show ?case by (cases f) simp_all
next
  case (JBool b)
  then show ?case by (cases f) simp_all
next
  case (JNumber n)
  then show ?case by (cases f) (simp_all add: read_simple_nat)
next
  case (JString s)
  then show ?case by (cases f) (simp_all add: read_simple_string)
qed

text \<open>A text is at least as long as the size of the value, so its length is enough fuel.\<close>

lemma size_simple_text: "size v \<le> length (simple_text v)"
proof (induction v)
  case (JArray xs)
  have "set ys \<subseteq> set xs \<Longrightarrow>
      size_list size ys \<le> length (concat (map (\<lambda>t. 1 # t) (map simple_text ys)))" for ys
  proof (induction ys)
    case Nil
    then show ?case by simp
  next
    case (Cons y ys)
    then have "size y \<le> length (simple_text y)" using JArray.IH by simp
    with Cons show ?case by simp
  qed
  from this [of xs] show ?case by simp
next
  case (JObject ms)
  let ?f = "\<lambda>(k, t). 1 # simple_string k @ t"
  have "set ns \<subseteq> set ms \<Longrightarrow>
      size_list (size_prod (\<lambda>_. 0) size) ns
        \<le> length (concat (map ?f (map (map_prod id simple_text) ns)))" for ns
  proof (induction ns)
    case Nil
    then show ?case by simp
  next
    case (Cons n ns)
    obtain k x where n: "n = (k, x)" by (cases n)
    with Cons.prems have x: "size x \<le> length (simple_text x)"
      using JObject.IH [of "(k, x)" x] by simp
    have k: "0 < length (simple_string k)"
      using simple_nat_nonempty [of "length k"] by (simp add: simple_string_def)
    from Cons.prems have "set ns \<subseteq> set ms" by simp
    then have rest: "size_list (size_prod (\<lambda>_. 0) size) ns
        \<le> length (concat (map ?f (map (map_prod id simple_text) ns)))"
      by (rule Cons.IH)
    have "size_list (size_prod (\<lambda>_. 0) size) (n # ns)
        = size x + size_list (size_prod (\<lambda>_. 0) size) ns + 2"
      by (simp add: n)
    moreover have "length (concat (map ?f (map (map_prod id simple_text) (n # ns))))
        = 1 + length (simple_string k) + length (simple_text x)
          + length (concat (map ?f (map (map_prod id simple_text) ns)))"
      by (simp add: n)
    ultimately show ?case
      using x k rest by linarith
  qed
  from this [of ms] show ?case by simp
qed simp_all

lemma simple_value_text: "simple_value (simple_text v) = Some v"
  using read_simple_text [of v "Suc (length (simple_text v))" "[]"] size_simple_text [of v]
  by (simp add: simple_value_def)

lemma utf8_valid_ascii: "\<forall>b \<in> set bs. b < 128 \<Longrightarrow> utf8_valid bs"
  by (induction bs) simp_all

lemma valid_simple_base16: "valid_utf8 (simple_base16 bs)"
  unfolding valid_utf8_def
proof (induction bs)
  case Nil
  then show ?case by (simp add: simple_base16_def)
next
  case (Cons b bs)
  have "unat b < 256"
    using unsigned_less [of b, where ?'a = nat] by simp
  then have "unat b div 16 < 16" by simp
  with Cons show ?case
    by (simp add: simple_base16_def)
qed

lemma read_simple_base16: "read_base16 (simple_base16 bs) = Some bs"
proof (induction bs)
  case Nil
  then show ?case by (simp add: simple_base16_def)
next
  case (Cons b bs)
  have "unat b < 256"
    using unsigned_less [of b, where ?'a = nat] by simp
  then have small: "unat b div 16 < 16" by simp
  have "(of_nat (unat b div 16 * 16 + unat b mod 16) :: byte) = b"
    by simp
  with Cons small show ?case
    by (simp add: simple_base16_def)
qed

lemma simple_nat_digits: "set (simple_nat n) \<subseteq> {0, 1, 2}"
proof (induction n rule: simple_nat.induct)
  case (1 n)
  then show ?case
    by (subst simple_nat.simps) auto
qed

lemma read_simple_Time:
  assumes "simple_Time_text t = Some s"
  shows "valid_utf8 s \<and> read_Time s = Some t"
proof -
  obtain n where t: "t = UnixNano n" by (cases t)
  let ?digits = "map (\<lambda>b. char_of (48 + unat b)) (simple_nat (nat \<bar>n\<bar>))"
  from assms t have s: "s = (if n < 0 then CHR ''-'' else CHR ''+'') # ?digits"
    by (simp split: if_splits)
  have small: "unat b < 3" if "b \<in> set (simple_nat (nat \<bar>n\<bar>))" for b
    using that simple_nat_digits [of "nat \<bar>n\<bar>"] by auto
  have "map (\<lambda>d. of_nat (of_char d - 48)) ?digits = simple_nat (nat \<bar>n\<bar>)"
    unfolding map_map comp_def
  proof (rule map_idI)
    fix b assume "b \<in> set (simple_nat (nat \<bar>n\<bar>))"
    from small [OF this] show "of_nat (of_char (char_of (48 + unat b)) - 48) = b"
      by simp
  qed
  then have "read_nat (map (\<lambda>d. of_nat (of_char d - 48)) ?digits) = Some (nat \<bar>n\<bar>, [])"
    using read_simple_nat [of "nat \<bar>n\<bar>" "[]"] by simp
  then have "read_Time s = Some t"
    by (simp add: read_Time_def s t)
  moreover have "utf8_valid (map of_char s)"
  proof (rule utf8_valid_ascii, rule ballI)
    fix c :: nat assume "c \<in> set (map of_char s)"
    then consider "c = 45" | "c = 43"
      | b where "b \<in> set (simple_nat (nat \<bar>n\<bar>))" "c = (48 + unat b) mod 256"
      by (auto simp: s split: if_splits)
    then show "c < 128"
    proof cases
      case 3
      with small [OF 3(1)] show ?thesis by simp
    qed simp_all
  qed
  ultimately show ?thesis by (simp add: valid_utf8_def)
qed

lemma simple_json_contract: "json_contract simple_json"
  unfolding json_contract_def
proof (intro conjI allI impI)
  fix t s assume "Time_MarshalJSON simple_json t = Some s"
  then have "simple_Time_text t = Some s"
    by (simp add: simple_json_def)
  from read_simple_Time [OF this]
  show "valid_utf8 s" "Time_UnmarshalJSON simple_json s = Some t"
    by (simp_all add: simple_json_def)
qed (simp_all add: simple_json_def simple_value_text
    simple_to_valid_utf8_def valid_utf8_def [of "[]"] valid_simple_base16 read_simple_base16)

section \<open>Round trip\<close>

text \<open>
  C1. For every plaintext P, passphrase Q, algorithm and cost parameters: if Encrypt
  succeeds and its result fields are placed in an artifact whose header records the
  algorithm and the parameters, then Decrypt of that artifact with Q succeeds and
  returns exactly P.
\<close>

theorem Encrypt_Decrypt_round_trip:
  assumes "library_contract L"
    and "fst (Encrypt L source P Q alg params) = Returned r"
    and "records header alg params"
  shows "fst (Decrypt L (artifact header r) Q) = Returned P"
  using assms by (rule Decrypt_Encrypt)

text \<open>
  The theorem at the executable library: the fast preset, AES-256-GCM, and the header
  of the fast preset.
\<close>

theorem Encrypt_Decrypt_round_trip_witness:
  "library_contract simple_library
   \<and> fst (Encrypt simple_library example_source example_plaintext example_passphrase
        format_AlgorithmAESGCM FastKDFParams) = Returned example_result
   \<and> records example_header format_AlgorithmAESGCM FastKDFParams
   \<and> fst (Decrypt simple_library (artifact example_header example_result) example_passphrase)
       = Returned example_plaintext"
  using Encrypt_Decrypt_round_trip [OF simple_library_contract example_Encrypt example_records]
    simple_library_contract example_Encrypt example_records
  by (intro conjI)

section \<open>Structural validation\<close>

text \<open>
  C2. Validation succeeds exactly when the version is "1.0", the algorithm is one of
  "AES-256-GCM" and "ChaCha20-Poly1305", the KDF is "Argon2id", the salt has 32 bytes,
  the nonce 12, the tag 16 and the ciphertext is not empty; and the reported result is
  that of the first failing check, the checks being taken in this order.
\<close>

theorem ValidateEncryptedFile_checks:
  "(ValidateEncryptedFile a = None \<longleftrightarrow>
      Version (Header a) = ''1.0''
      \<and> (Algorithm (Header a) = ''AES-256-GCM'' \<or> Algorithm (Header a) = ''ChaCha20-Poly1305'')
      \<and> KDF (Header a) = ''Argon2id''
      \<and> length (EncryptedFile.Salt a) = 32
      \<and> length (EncryptedFile.Nonce a) = 12
      \<and> length (EncryptedFile.Tag a) = 16
      \<and> EncryptedFile.Ciphertext a \<noteq> [])
   \<and> ValidateEncryptedFile a = first_failing spec_checks a"
  by (simp add: ValidateEncryptedFile_def spec_checks_def format_Version_def
      format_AlgorithmAESGCM_def format_AlgorithmChaCha20_def)

theorem ValidateEncryptedFile_checks_witness:
  "ValidateEncryptedFile (artifact example_header example_result) = None
   \<and> ValidateEncryptedFile
       (artifact (example_header\<lparr>Version := ''2.0''\<rparr>)
          (example_result\<lparr>EncryptionResult.Salt := []\<rparr>))
       = Some (UnsupportedFileVersion ''2.0'')"
  using ValidateEncryptedFile_checks [of "artifact example_header example_result"]
    ValidateEncryptedFile_checks [of "artifact (example_header\<lparr>Version := ''2.0''\<rparr>)
          (example_result\<lparr>EncryptionResult.Salt := []\<rparr>)"]
  by (simp add: spec_checks_def run_defs)

section \<open>What Decrypt reads\<close>

text \<open>
  C3. For every artifact and passphrase, Decrypt derives the key from the artifact's
  recorded salt and recorded iterations, memory and threads, with the key length fixed
  at 32 bytes, and opens the ciphertext followed by the tag under the recorded nonce
  with no associated data: it computes what the specification's wording computes.
  Nothing else of the artifact (version, KDF name, timestamp, comment) and no other
  parameters enter the result.
\<close>

theorem Decrypt_follows_recorded_fields:
  "fst (Decrypt L a Q) = spec_Decrypt L a Q
   \<and> Decrypt L (a\<lparr>Header := (Header a)\<lparr>Version := v, KDF := k, Timestamp := ts, Comment := c\<rparr>\<rparr>) Q
       = Decrypt L a Q"
proof -
  let ?a' = "a\<lparr>Header := (Header a)\<lparr>Version := v, KDF := k, Timestamp := ts, Comment := c\<rparr>\<rparr>"
  have "DecryptAES_body L ?a' key = DecryptAES_body L a key" for key
    by (simp add: DecryptAES_body_def split: option.splits)
  then have "DecryptAES L ?a' Q params = DecryptAES L a Q params" for params
    by (simp add: DecryptAES_def split: may_panic.splits)
  then have "Decrypt L ?a' Q = Decrypt L a Q"
    by (simp add: Decrypt_def Let_def)
  then show ?thesis
    by (simp add: fst_Decrypt)
qed

theorem Decrypt_follows_recorded_fields_witness:
  "spec_Decrypt simple_library (artifact example_header example_result) example_passphrase
     = Returned example_plaintext
   \<and> fst (Decrypt simple_library
            (artifact (example_header\<lparr>Version := ''0.9'', KDF := ''scrypt'',
                 Timestamp := UnixNano 1, Comment := ''x''\<rparr>) example_result)
            example_passphrase) = Returned example_plaintext"
proof -
  have "fst (Decrypt simple_library (artifact example_header example_result) example_passphrase)
      = Returned example_plaintext"
    by (simp add: run_defs replicate_numeral)
  with Decrypt_follows_recorded_fields [where L = simple_library
      and a = "artifact example_header example_result" and Q = example_passphrase
      and v = "''0.9''" and k = "''scrypt''" and ts = "UnixNano 1" and c = "''x''"]
  show ?thesis
    by (simp add: artifact_def)
qed

section \<open>Algorithm selection\<close>

text \<open>
  C4. For every algorithm token that is neither "AES-256-GCM" nor "ChaCha20-Poly1305",
  Encrypt with that token fails with the "unsupported algorithm" error before touching
  any data (no random byte is drawn, no key is derived), and Decrypt of an artifact
  whose header carries the token fails with the same error. The header token alone
  selects the construction Decrypt uses: "AES-256-GCM" is DecryptAES and
  "ChaCha20-Poly1305" is DecryptChaCha20, each on the parameters recorded in the header.
\<close>

theorem unsupported_algorithm_fails_closed:
  assumes "alg \<noteq> ''AES-256-GCM''" and "alg \<noteq> ''ChaCha20-Poly1305''"
  shows "Encrypt L source P Q alg params = (Failed (UnsupportedAlgorithm alg), None, source)
       \<and> (Algorithm (Header a) = alg \<longrightarrow> Decrypt L a Q = (Failed (UnsupportedAlgorithm alg), None))
       \<and> (\<forall>b. Algorithm (Header b) = ''AES-256-GCM'' \<longrightarrow>
             Decrypt L b Q = DecryptAES L b Q
               \<lparr>KDFParams.Iterations = Header.Iterations (Header b),
                Memory = Header.Memory (Header b),
                Threads = Header.Threads (Header b), KeyLength = 32\<rparr>)
       \<and> (\<forall>b. Algorithm (Header b) = ''ChaCha20-Poly1305'' \<longrightarrow>
             Decrypt L b Q = DecryptChaCha20 L (EncryptedFile.Salt b) (EncryptedFile.Nonce b)
               (EncryptedFile.Ciphertext b) (EncryptedFile.Tag b) Q
               \<lparr>KDFParams.Iterations = Header.Iterations (Header b),
                Memory = Header.Memory (Header b),
                Threads = Header.Threads (Header b), KeyLength = 32\<rparr>)"
  using assms
  by (simp add: Encrypt_def Decrypt_def Let_def format_AlgorithmAESGCM_def format_AlgorithmChaCha20_def)

theorem unsupported_algorithm_fails_closed_witness:
  "Encrypt simple_library example_source example_plaintext example_passphrase ''AES-128-CBC''
     FastKDFParams = (Failed (UnsupportedAlgorithm ''AES-128-CBC''), None, example_source)
   \<and> Decrypt simple_library
       (artifact (example_header\<lparr>Algorithm := ''AES-128-CBC''\<rparr>) example_result)
       example_passphrase = (Failed (UnsupportedAlgorithm ''AES-128-CBC''), None)"
  using unsupported_algorithm_fails_closed [where alg = "''AES-128-CBC''" and L = simple_library
      and source = example_source and P = example_plaintext and Q = example_passphrase
      and params = FastKDFParams
      and a = "artifact (example_header\<lparr>Algorithm := ''AES-128-CBC''\<rparr>) example_result"]
  by (simp add: artifact_def)

section \<open>Cost parameters of a validated artifact\<close>

text \<open>
  C6. ValidateEncryptedFile places no constraint on the header's cost parameters: an
  artifact that passes validation passes it with any iterations, memory and threads,
  zero included. Decrypt hands the recorded values unchanged to DeriveKey, which has no
  error result; with Iterations = 0 or Threads = 0 the derivation panics, so Decrypt on
  such a validated artifact aborts instead of returning a plaintext or an error.
\<close>

theorem Decrypt_aborts_on_zero_cost:
  assumes L: "library_contract L"
    and valid: "ValidateEncryptedFile a = None"
    and zero: "Header.Iterations (Header a) = 0 \<or> Header.Threads (Header a) = 0"
  shows "(\<forall>i m t. ValidateEncryptedFile
            (a\<lparr>Header := (Header a)\<lparr>Header.Iterations := i, Header.Memory := m,
                                      Header.Threads := t\<rparr>\<rparr>) = None)
       \<and> DeriveKey L Q (EncryptedFile.Salt a)
            \<lparr>KDFParams.Iterations = Header.Iterations (Header a),
             Memory = Header.Memory (Header a),
             Threads = Header.Threads (Header a), KeyLength = 32\<rparr> = Panic
       \<and> Decrypt L a Q = (Panic, None)"
proof -
  let ?params = "\<lparr>KDFParams.Iterations = Header.Iterations (Header a),
             Memory = Header.Memory (Header a),
             Threads = Header.Threads (Header a), KeyLength = 32\<rparr>"
  from zero have "KDFParams.Iterations ?params < 1 \<or> KDFParams.Threads ?params < 1"
    by auto
  from IDKey_Panic [OF L this] have panic: "DeriveKey L Q (EncryptedFile.Salt a) ?params = Panic"
    by (simp add: DeriveKey_def)
  from Validate_None_algorithm [OF valid] panic have "Decrypt L a Q = (Panic, None)"
    by (auto simp: Decrypt_def DecryptAES_def DecryptChaCha20_def Let_def
        format_AlgorithmAESGCM_def format_AlgorithmChaCha20_def)
  with panic valid show ?thesis
    by (simp add: Validate_ignores_cost)
qed

theorem Decrypt_aborts_on_zero_cost_witness:
  "library_contract simple_library
   \<and> ValidateEncryptedFile
       (artifact (example_header\<lparr>Header.Iterations := 0\<rparr>) example_result) = None
   \<and> Header.Iterations (Header (artifact (example_header\<lparr>Header.Iterations := 0\<rparr>) example_result)) = 0
   \<and> Decrypt simple_library
       (artifact (example_header\<lparr>Header.Iterations := 0\<rparr>) example_result) example_passphrase
       = (Panic, None)"
proof -
  let ?a = "artifact (example_header\<lparr>Header.Iterations := 0\<rparr>) example_result"
  have valid: "ValidateEncryptedFile ?a = None"
    by (simp add: ValidateEncryptedFile_def run_defs)
  have zero: "Header.Iterations (Header ?a) = 0 \<or> Header.Threads (Header ?a) = 0"
    by (simp add: artifact_def)
  from Decrypt_aborts_on_zero_cost [OF simple_library_contract valid zero, of example_passphrase]
    simple_library_contract valid
  show ?thesis
    by (simp add: artifact_def)
qed

section \<open>Sizes of the result\<close>

text \<open>
  C7. For every plaintext P, passphrase Q and cost parameters, whenever Encrypt
  succeeds, under either algorithm, the result has a salt of exactly 32 bytes, a nonce
  of exactly 12 bytes, a tag of exactly 16 bytes and a ciphertext as long as P.
\<close>

theorem Encrypt_result_lengths:
  assumes "library_contract L"
    and "fst (Encrypt L source P Q alg params) = Returned r"
  shows "length (EncryptionResult.Salt r) = 32
       \<and> length (EncryptionResult.Nonce r) = 12
       \<and> length (EncryptionResult.Tag r) = 16
       \<and> length (EncryptionResult.Ciphertext r) = length P"
proof -
  from Encrypt_Returned [OF assms] obtain aead sealed limit where
    src: "44 \<le> length source" and
    contract: "AEAD_contract limit aead" and
    sealed: "Seal aead (take 12 (drop 32 source)) P [] = Done sealed" and
    r: "r = \<lparr>EncryptionResult.Salt = take 32 source, Nonce = take 12 (drop 32 source),
             Ciphertext = take (length sealed - 16) sealed,
             Tag = drop (length sealed - 16) sealed\<rparr>"
    by blast
  from AEAD_contract_Seal [OF contract sealed] have "length sealed = length P + 16"
    by simp
  with src r show ?thesis by simp
qed

theorem Encrypt_result_lengths_witness:
  "library_contract simple_library
   \<and> fst (Encrypt simple_library example_source example_plaintext example_passphrase
        format_AlgorithmChaCha20 FastKDFParams) = Returned example_result_chacha
   \<and> length (EncryptionResult.Salt example_result_chacha) = 32
   \<and> length (EncryptionResult.Nonce example_result_chacha) = 12
   \<and> length (EncryptionResult.Tag example_result_chacha) = 16
   \<and> length (EncryptionResult.Ciphertext example_result_chacha) = length example_plaintext"
  using Encrypt_result_lengths [OF simple_library_contract example_Encrypt_chacha]
    simple_library_contract example_Encrypt_chacha
  by (intro conjI) simp_all

section \<open>The derived-key buffer\<close>

text \<open>
  C8. ClearBytes sets every byte of its argument to zero. On every exit path of Encrypt
  and Decrypt, success, failure and panic alike, a key buffer that was derived has been
  passed to ClearBytes before the call is over: whenever the call reached the
  derivation and the derivation returned a key, the buffer holds as many zero bytes as
  the key had bytes when the call ends, and no call ends with a buffer that holds
  anything else.
\<close>

theorem key_buffer_cleared:
  "ClearBytes data = replicate (length data) 0
   \<and> (\<forall>buf. fst (snd (Encrypt L source P Q alg params)) = Some buf \<longrightarrow> buf = replicate (length buf) 0)
   \<and> (\<forall>buf. snd (Decrypt L a Q') = Some buf \<longrightarrow> buf = replicate (length buf) 0)
   \<and> (\<forall>key. (alg = ''AES-256-GCM'' \<or> alg = ''ChaCha20-Poly1305'') \<and> 32 \<le> length source
          \<and> DeriveKey L Q (take 32 source) params = Done key
        \<longrightarrow> fst (snd (Encrypt L source P Q alg params)) = Some (replicate (length key) 0))
   \<and> (\<forall>key. (Algorithm (Header a) = ''AES-256-GCM'' \<or> Algorithm (Header a) = ''ChaCha20-Poly1305'')
          \<and> DeriveKey L Q' (EncryptedFile.Salt a)
               \<lparr>KDFParams.Iterations = Header.Iterations (Header a),
                Memory = Header.Memory (Header a),
                Threads = Header.Threads (Header a), KeyLength = 32\<rparr> = Done key
        \<longrightarrow> snd (Decrypt L a Q') = Some (replicate (length key) 0))"
  by (auto simp: ClearBytes_zero key_buffer_Encrypt snd_Decrypt
      format_AlgorithmAESGCM_def format_AlgorithmChaCha20_def
      split: if_splits may_panic.splits)

theorem key_buffer_cleared_witness:
  "ClearBytes [115, 101, 99] = [0, 0, 0]
   \<and> fst (snd (Encrypt simple_library example_source example_plaintext example_passphrase
        ''AES-256-GCM'' FastKDFParams)) = Some (replicate 32 0)
   \<and> snd (Decrypt simple_library (artifact example_header example_result) [119])
       = Some (replicate 32 0)"
proof -
  have key: "DeriveKey simple_library example_passphrase (take 32 example_source) FastKDFParams
      = Done ([112, 119] @ replicate 30 7)"
    by (simp add: run_defs replicate_numeral)
  have key': "DeriveKey simple_library [119]
      (EncryptedFile.Salt (artifact example_header example_result))
      \<lparr>KDFParams.Iterations = Header.Iterations (Header (artifact example_header example_result)),
       Memory = Header.Memory (Header (artifact example_header example_result)),
       Threads = Header.Threads (Header (artifact example_header example_result)),
       KeyLength = 32\<rparr> = Done (119 # replicate 31 7)"
    by (simp add: run_defs replicate_numeral)
  have alg: "Algorithm (Header (artifact example_header example_result)) = ''AES-256-GCM''"
    by (simp add: run_defs)
  have src: "32 \<le> length example_source"
    by (simp add: example_source_def)
  from key_buffer_cleared [where data = "[115, 101, 99]" and L = simple_library
      and source = example_source and P = example_plaintext and Q = example_passphrase
      and alg = "''AES-256-GCM''" and params = FastKDFParams
      and a = "artifact example_header example_result" and Q' = "[119]"]
  have "ClearBytes [115, 101, 99] = replicate (length [115, 101, 99 :: byte]) 0"
    and "fst (snd (Encrypt simple_library example_source example_plaintext example_passphrase
        ''AES-256-GCM'' FastKDFParams)) = Some (replicate (length ([112, 119] @ replicate 30 7 :: bytes)) 0)"
    and "snd (Decrypt simple_library (artifact example_header example_result) [119])
       = Some (replicate (length (119 # replicate 31 7 :: bytes)) 0)"
    using key key' alg src by blast+
  then show ?thesis
    by (simp add: replicate_numeral)
qed

section \<open>Serialization round trip\<close>

text \<open>
  C10. Serialization and deserialization, over any JSON library meeting
  \<open>json_contract\<close>: ToJSON fails exactly when the timestamp cannot be marshalled;
  otherwise FromJSON of the bytes ToJSON produced succeeds and yields the artifact with
  the version, algorithm, KDF and comment strings coerced to valid UTF-8 and every other
  field (iterations, memory, threads, timestamp, salt, nonce, ciphertext, tag) as it was.
  When the four strings are valid UTF-8 that artifact is the original.

  A timestamp is the instant it denotes (its monotonic clock reading and location are
  not modelled), so equality of timestamps is equality of instants.
\<close>

theorem ToJSON_FromJSON_round_trip:
  assumes "json_contract J"
  shows "(case Time_MarshalJSON J (Timestamp (Header a)) of
            None \<Rightarrow> ToJSON J a = Inl MarshalerError
          | Some timestamp \<Rightarrow>
              (\<exists>data. ToJSON J a = Inr data \<and> FromJSON J data = Inr (coerced J a)))
       \<and> (valid_utf8 (Version (Header a)) \<and> valid_utf8 (Algorithm (Header a))
            \<and> valid_utf8 (KDF (Header a)) \<and> valid_utf8 (Comment (Header a))
          \<longrightarrow> coerced J a = a)"
proof (intro conjI impI)
  show "case Time_MarshalJSON J (Timestamp (Header a)) of
            None \<Rightarrow> ToJSON J a = Inl MarshalerError
          | Some timestamp \<Rightarrow>
              (\<exists>data. ToJSON J a = Inr data \<and> FromJSON J data = Inr (coerced J a))"
  proof (cases "Time_MarshalJSON J (Timestamp (Header a))")
    case None
    then show ?thesis by (simp add: ToJSON_def EncryptedFile_json_def)
  next
    case (Some timestamp)
    then obtain data where data: "ToJSON J a = Inr data"
      by (simp add: ToJSON_def EncryptedFile_json_def)
    with FromJSON_ToJSON_coerced [OF assms data] Some show ?thesis by simp
  qed
next
  assume "valid_utf8 (Version (Header a)) \<and> valid_utf8 (Algorithm (Header a))
            \<and> valid_utf8 (KDF (Header a)) \<and> valid_utf8 (Comment (Header a))"
  with coerced_valid [OF assms] show "coerced J a = a" by blast
qed

text \<open>
  The theorem at the executable JSON library and the artifact of the concrete inputs
  (fast preset, timestamp at the Unix epoch, no comment): it serializes, and the bytes
  deserialize to the artifact itself.
\<close>

theorem ToJSON_FromJSON_round_trip_witness:
  "json_contract simple_json
   \<and> (\<exists>data. ToJSON simple_json (artifact example_header example_result) = Inr data
         \<and> FromJSON simple_json data = Inr (artifact example_header example_result))"
proof -
  let ?a = "artifact example_header example_result"
  have header: "Header ?a = FastHeader (UnixNano 0)"
    by (simp add: artifact_def example_header_def)
  have "\<exists>timestamp. Time_MarshalJSON simple_json (Timestamp (Header ?a)) = Some timestamp"
    by (simp add: header FastHeader_def simple_json_def year_1_def year_10000_def)
  then obtain timestamp
    where ts: "Time_MarshalJSON simple_json (Timestamp (Header ?a)) = Some timestamp" ..
  have valid: "valid_utf8 (Version (Header ?a)) \<and> valid_utf8 (Algorithm (Header ?a))
      \<and> valid_utf8 (KDF (Header ?a)) \<and> valid_utf8 (Comment (Header ?a))"
    by (simp add: header FastHeader_def valid_utf8_def format_Version_def
        format_AlgorithmAESGCM_def)
  from ToJSON_FromJSON_round_trip [OF simple_json_contract, of ?a] ts valid
  have "\<exists>data. ToJSON simple_json ?a = Inr data \<and> FromJSON simple_json data = Inr ?a"
    by (elim conjE) (simp only: option.case simp_thms)
  with simple_json_contract show ?thesis by (intro conjI)
qed

text \<open>
  The round trip does not hold for every artifact. A Go string may hold bytes that are
  not valid UTF-8 and \<open>Marshal\<close> replaces them: for the artifact whose comment is the
  byte \<open>0xFF\<close> (every other field zero), serializing succeeds, and under no JSON library
  meeting the contract does deserializing the result give the artifact back.
\<close>

theorem serialization_counterexample:
  "json_contract simple_json
   \<and> (\<exists>data. ToJSON simple_json invalid_comment = Inr data)
   \<and> \<not> (\<exists>J data. json_contract J \<and> ToJSON J invalid_comment = Inr data
          \<and> FromJSON J data = Inr invalid_comment)"
proof (intro conjI notI)
  show "json_contract simple_json" by (rule simple_json_contract)
next
  show "\<exists>data. ToJSON simple_json invalid_comment = Inr data"
    by (simp add: ToJSON_def EncryptedFile_json_def invalid_comment_def zero_EncryptedFile_def
        zero_Header_def zero_Time_def simple_json_def year_1_def year_10000_def)
next
  assume "\<exists>J data. json_contract J \<and> ToJSON J invalid_comment = Inr data
          \<and> FromJSON J data = Inr invalid_comment"
  then obtain J data where J: "json_contract J"
    and data: "ToJSON J invalid_comment = Inr data"
    and decoded: "FromJSON J data = Inr invalid_comment"
    by (elim exE conjE)
  from FromJSON_ToJSON_coerced [OF J data] decoded
  have "coerced J invalid_comment = invalid_comment" by simp
  with invalid_comment_not_coerced [OF J] show False by simp
qed

end
